theory Spec2Isabelle
  imports Main
begin

section \<open>Data model of the board widget (src/src/boardWidget/board.js)\<close>

text \<open>
  The widget keeps all of its state in one per-instance object \<open>opt\<close>.  The parts of the
  page it reads back are modelled as data inside that object: the element \<open>dataEle\<close> of a
  column is the list of its child items (in document order), the element
  \<open>headerTotalEle\<close> is the number it shows.  An item on the board carries its
  \<open>data-id\<close> attribute, its rendered content and whether it has the class
  \<open>spwidget-temp\<close>.

  Conventions of the model:
  \<^item> a list row is its \<open>ID\<close> and its named values; identifiers and values are strings, and
    the \<open>data-id\<close> of an item is the identifier it was rendered for;
  \<^item> \<open>statesMap\<close> holds the keys the widget has stored in the object \<open>opt.statesMap\<close>, each
    with the index, in \<open>states\<close>, of the column object stored under it; what a read of
    \<open>opt.statesMap[key]\<close> yields is \<open>statesMapAt\<close> below, which also finds the names that
    the object inherits;
  \<^item> the item template is a function from the row to the rendered text; the rendered text
    holds no element that the widget's own selectors (\<open>div[data-id=...]\<close>,
    \<open>div.spwidget-board-state-item\<close>) would find.
\<close>

record board_item =
  data_id :: string
  html :: string
  temp :: bool

record state_col =
  type :: string
  title :: string
  name :: string
  isVisible :: bool
  dataEle :: "board_item list"
  headerTotalEle :: nat

record row =
  ID :: string
  vals :: "(string \<times> string) list"

text \<open>
  The values that jQuery's \<open>.data(key)\<close> hands back for an attribute \<open>data-key\<close>: the text
  of the attribute, unless jQuery converts it: \<open>"true"\<close>, \<open>"false"\<close> and \<open>"null"\<close> become the
  boolean and \<open>null\<close>, a text that is the string form of a number becomes that number, a
  text in braces or brackets that parses as JSON becomes the object; \<open>undefined\<close> is what
  an empty selection gives.  A number and an object are kept by their string form
  (\<open>String(v)\<close>), which is all the widget reads of them.
\<close>

datatype jsval = JUndefined | JNull | JBool bool | JNum string | JStr string | JObj string

text \<open>The test \<open>if (v)\<close>: of the numbers, \<open>0\<close> and \<open>NaN\<close> are falsy.\<close>

fun jsval_truthy :: "jsval \<Rightarrow> bool" where
  "jsval_truthy JUndefined = False"
| "jsval_truthy JNull = False"
| "jsval_truthy (JBool b) = b"
| "jsval_truthy (JNum n) = (n \<noteq> ''0'' \<and> n \<noteq> ''NaN'')"
| "jsval_truthy (JStr s) = (s \<noteq> [])"
| "jsval_truthy (JObj s) = True"

text \<open>\<open>String(v)\<close>\<close>

fun jsval_String :: "jsval \<Rightarrow> string" where
  "jsval_String JUndefined = ''undefined''"
| "jsval_String JNull = ''null''"
| "jsval_String (JBool b) = (if b then ''true'' else ''false'')"
| "jsval_String (JNum n) = n"
| "jsval_String (JStr s) = s"
| "jsval_String (JObj s) = s"

datatype modified = Rec "row option" | RecArray "row option list"

record evData =
  stateTotals :: "(string \<times> nat) list"
  itemTotal :: nat
  currentState :: jsval
  itemObj :: "row option"
  itemsModified :: "modified list"
  updates :: "(string \<times> jsval) list"

datatype hook_ret = ReturnsTrue | ReturnsOther

datatype event =
    BoardItemAdd evData
  | BoardItemRemove evData
  | BoardChange evData
  | BoardColumnChange
  | BoardCreate evData

text \<open>
  jQuery is not part of the repository.  The conversion that its \<open>.data()\<close> applies to the
  text of an attribute is an argument of the model, carried in \<open>opt\<close> as \<open>dataAttr\<close>.
\<close>

record opt =
  list :: string
  field :: string
  fieldFilter :: "string option"
  optionalLabel :: string
  allowFieldBlanks :: "bool option"
  template :: "row \<Rightarrow> string"
  onPreUpdate :: "(evData \<Rightarrow> hook_ret \<times> (string \<times> jsval) list) option"
  states :: "state_col list"
  statesMap :: "string \<rightharpoonup> nat"
  listItems :: "row list"
  initDone :: bool
  isStateRequired :: bool
  maxColumnVisible :: nat
  showNumberOfColumns :: nat
  dataAttr :: "string \<Rightarrow> jsval"

text \<open>
  \<open>opt.statesMap\<close> is created as \<open>{}\<close> (464), so a read \<open>opt.statesMap[key]\<close> finds the column
  object stored under \<open>key\<close> or, when the widget stored none, what every object inherits
  under that name from \<open>Object.prototype\<close>: a function, or for \<open>__proto__\<close> the prototype
  itself.  Those values are truthy and have no property \<open>dataEle\<close>.

  An assignment \<open>opt.statesMap["__proto__"] = column\<close> stores no key: it replaces the
  prototype of the object, and the names of the column object are then found by every
  read.  The reads are modelled for the boards that have no column stored under
  \<open>__proto__\<close>, that is, whose field has no value \<open>__proto__\<close>.
\<close>

definition objectPrototype :: "string list" where
  "objectPrototype = [''constructor'', ''hasOwnProperty'', ''isPrototypeOf'',
     ''propertyIsEnumerable'', ''toLocaleString'', ''toString'', ''valueOf'', ''__proto__'',
     ''__defineGetter__'', ''__defineSetter__'', ''__lookupGetter__'', ''__lookupSetter__'']"

datatype slot = Column nat | Inherited

definition statesMapAt :: "opt \<Rightarrow> string \<Rightarrow> slot option" where
  "statesMapAt opt key =
     (case statesMap opt key of
        Some k \<Rightarrow> Some (Column k)
      | None \<Rightarrow> if key \<in> set objectPrototype then Some Inherited else None)"

text \<open>
  jQuery's conversion on the texts of the sample boards below, which are words and whole
  numbers: a whole number of at most fifteen digits, written without a sign and without
  leading zeros, is its own string form.  (jQuery also converts negative numbers,
  fractions, exponents, \<open>NaN\<close>, \<open>Infinity\<close> and JSON texts; no sample holds one.)
\<close>

definition isDigit :: "char \<Rightarrow> bool" where
  "isDigit c = (48 \<le> (of_char c :: nat) \<and> (of_char c :: nat) \<le> 57)"

definition isWholeNumber :: "string \<Rightarrow> bool" where
  "isWholeNumber s = (s \<noteq> [] \<and> list_all isDigit s \<and> length s \<le> 15 \<and>
                      (s = ''0'' \<or> hd s \<noteq> CHR ''0''))"

definition jqData :: "string \<Rightarrow> jsval" where
  "jqData s = (if s = ''true'' then JBool True
               else if s = ''false'' then JBool False
               else if s = ''null'' then JNull
               else if isWholeNumber s then JNum s
               else JStr s)"

section \<open>Column visibility\<close>

subsection \<open>The argument of \<open>setVisible\<close>\<close>

datatype colList = Undefined | Str string | Arr "string list"

datatype js_ret = RetUndefined | RetBool bool

definition toLowerCase_char :: "char \<Rightarrow> char" where
  "toLowerCase_char c =
     (let n = (of_char c :: nat) in if 65 \<le> n \<and> n \<le> 90 then char_of (n + 32) else c)"

definition toLowerCase :: "string \<Rightarrow> string" where
  "toLowerCase s = map toLowerCase_char s"

fun js_truthy :: "colList \<Rightarrow> bool" where
  "js_truthy Undefined = False"
| "js_truthy (Str s) = (s \<noteq> [])"
| "js_truthy (Arr xs) = True"

fun isArray :: "colList \<Rightarrow> bool" where
  "isArray (Arr xs) = True"
| "isArray _ = False"

fun elems :: "colList \<Rightarrow> string list" where
  "elems (Arr xs) = xs"
| "elems _ = []"

text \<open>\<open>String(colList)\<close>; it is only evaluated where \<open>colList\<close> is not an array.\<close>

fun js_String :: "colList \<Rightarrow> string" where
  "js_String (Str s) = s"
| "js_String Undefined = ''undefined''"
| "js_String (Arr xs) = concat (map (\<lambda>x. x @ '','') xs)"

subsection \<open>\<open>setUserDefinedVisibleCol\<close> (board.js 1112-1243)\<close>

definition isValidColumn :: "opt \<Rightarrow> string \<Rightarrow> bool" where
  "isValidColumn opt colName =
     list_ex (\<lambda>state. title state = colName \<or> name state = colName) (states opt)"

text \<open>The validation loop (1165-1186): counts the valid names, leaving at the second.\<close>

fun validateCount :: "opt \<Rightarrow> nat \<Rightarrow> string list \<Rightarrow> nat" where
  "validateCount opt count [] = count"
| "validateCount opt count (col # cols) =
     (let count' = (if isValidColumn opt col then count + 1 else count)
      in if count' = 2 then count' else validateCount opt count' cols)"

text \<open>
  The show/hide loop (1191-1232) walks the columns in board order; it leaves the loop
  after the column at which \<open>count\<close> reaches \<open>maxColumnVisible\<close>, and the columns behind
  that one are not visited.
\<close>

definition inList :: "state_col \<Rightarrow> string list \<Rightarrow> bool" where
  "inList colDef cl = (title colDef \<in> set cl \<or> name colDef \<in> set cl)"

fun showHideLoop :: "nat \<Rightarrow> string list \<Rightarrow> nat \<Rightarrow> state_col list \<Rightarrow> state_col list \<times> nat" where
  "showHideLoop mx cl count [] = ([], count)"
| "showHideLoop mx cl count (colDef # rest) =
     (let count' = (if inList colDef cl then count + 1 else count);
          colDef' = (if inList colDef cl
                     then (if isVisible colDef = False then colDef\<lparr>isVisible := True\<rparr> else colDef)
                     else colDef\<lparr>isVisible := False\<rparr>)
      in if count' \<ge> mx then (colDef' # rest, count')
         else (case showHideLoop mx cl count' rest of (rest', c) \<Rightarrow> (colDef' # rest', c)))"

definition visibleCount :: "opt \<Rightarrow> nat" where
  "visibleCount opt = length (filter isVisible (states opt))"

text \<open>\<open>setBoardColumnClass\<close> (1256-1298): the css class is the number it stores.\<close>

definition setBoardColumnClass :: "nat \<Rightarrow> opt \<Rightarrow> opt" where
  "setBoardColumnClass colCount opt =
     (let colCount' = (if colCount = 0 \<or> colCount < 2 then visibleCount opt else colCount)
      in if showNumberOfColumns opt = colCount' then opt
         else opt\<lparr>showNumberOfColumns := colCount'\<rparr>)"

text \<open>\<open>triggerBoardColumnChangeEvent\<close> (1305-1327); the list of titles it sends is left out.\<close>

definition triggerBoardColumnChangeEvent :: "opt \<Rightarrow> event list" where
  "triggerBoardColumnChangeEvent opt = (if initDone opt then [BoardColumnChange] else [])"

text \<open>
  The function ends each of its paths with a bare \<open>return\<close>; \<open>svc_return\<close> is the
  value that leaves it.  The method \<open>setVisible\<close> of the widget (428-431) calls it and
  hands back the selection it was called on.
\<close>

record svc_result =
  svc_opt :: opt
  svc_events :: "event list"
  svc_return :: js_ret

definition setUserDefinedVisibleCol :: "opt \<Rightarrow> colList \<Rightarrow> svc_result" where
  "setUserDefinedVisibleCol opt colList =
     (let unchanged = \<lparr>svc_opt = opt, svc_events = [], svc_return = RetUndefined\<rparr>
      in if \<not> js_truthy colList then unchanged
         else
           (let (leave, showAll, cl) =
                  (if \<not> isArray colList \<or> length (elems colList) = 0
                   then (if \<not> isArray colList \<and> toLowerCase (js_String colList) \<noteq> ''all''
                         then (True, False, [])
                         else (False, True, []))
                   else (False, False, elems colList))
            in if leave then unchanged
               else if length cl < 2 then unchanged
               else
                 (let validated = (if \<not> showAll then validateCount opt 0 cl else 0);
                      (sts, count) = showHideLoop (maxColumnVisible opt) cl 0 (states opt);
                      opt1 = setBoardColumnClass count (opt\<lparr>states := sts\<rparr>)
                  in \<lparr>svc_opt = opt1,
                      svc_events = triggerBoardColumnChangeEvent opt1,
                      svc_return = RetUndefined\<rparr>)))"

subsection \<open>The first visibility assignment (showBoard, board.js 1899-1960)\<close>

definition buildBoardColumns :: "opt \<Rightarrow> opt" where
  "buildBoardColumns opt =
     (let opt1 = (if length (states opt) \<le> maxColumnVisible opt
                  then opt\<lparr>showNumberOfColumns := length (states opt)\<rparr> else opt)
      in opt1\<lparr>states :=
           map (\<lambda>(i, v). v\<lparr>isVisible := \<not> (int i > int (maxColumnVisible opt) - 1),
                            dataEle := [], headerTotalEle := 0\<rparr>)
               (enumerate 0 (states opt))\<rparr>)"

section \<open>Field domain: \<open>getBoardStates\<close> (board.js 2206-2416)\<close>

text \<open>
  The column definition \<open>f\<close> returned by \<open>getListColumns(...).getColumn(opt.field)\<close>, with
  the values \<open>f.getColumnValues()\<close> of a choice field.  Both functions live outside this
  file of the repository; what they return is an argument of the model.
\<close>

record list_column =
  col_Name :: string
  col_Required :: string
  col_Type :: string
  col_List :: string
  col_ShowField :: string
  col_values :: "string list"

datatype lookup_reply = Rows "row list" | Failed

definition maxColumns :: nat where
  "maxColumns = 20"

text \<open>\<open>String.prototype.split(/\,/)\<close>\<close>

fun split_comma :: "string \<Rightarrow> string list" where
  "split_comma [] = [[]]"
| "split_comma (c # cs) =
     (if c = CHR '','' then [] # split_comma cs
      else (case split_comma cs of w # ws \<Rightarrow> (c # w) # ws | [] \<Rightarrow> [[c]]))"

text \<open>
  A column object as \<open>getBoardStates\<close> pushes it: \<open>isVisible\<close>, \<open>dataEle\<close> and the header are
  only set when the board is built, and hold \<open>False\<close>, no items and \<open>0\<close> until then.
\<close>

definition newState :: "string \<Rightarrow> string \<Rightarrow> string \<Rightarrow> state_col" where
  "newState ty ti na = \<lparr>type = ty, title = ti, name = na, isVisible = False,
                         dataEle = [], headerTotalEle = 0\<rparr>"

text \<open>The loop over the values of a choice field (2274-2307); \<open>i\<close> is the index in the
  unfiltered list of values.\<close>

fun choiceLoop :: "string list option \<Rightarrow> nat \<Rightarrow> string list \<Rightarrow>
    state_col list \<times> (string \<rightharpoonup> nat) \<Rightarrow> state_col list \<times> (string \<rightharpoonup> nat)" where
  "choiceLoop flt i [] acc = acc"
| "choiceLoop flt i (colValue # rest) (sts, m) =
     (if (case flt of Some fl \<Rightarrow> filter (\<lambda>e. e = colValue) fl = [] | None \<Rightarrow> False)
      then choiceLoop flt (i + 1) rest (sts, m)
      else if i \<ge> maxColumns then (sts, m)
      else choiceLoop flt (i + 1) rest
             (sts @ [newState ''choice'' colValue colValue], m(colValue \<mapsto> length sts)))"

definition rowValue :: "row \<Rightarrow> string \<Rightarrow> string" where
  "rowValue r k = (case map_of (vals r) k of Some v \<Rightarrow> v | None \<Rightarrow> ''undefined'')"

text \<open>The loop over the rows of the lookup list (2354-2381).\<close>

fun lookupLoop :: "string \<Rightarrow> nat \<Rightarrow> row list \<Rightarrow>
    state_col list \<times> (string \<rightharpoonup> nat) \<Rightarrow> state_col list \<times> (string \<rightharpoonup> nat)" where
  "lookupLoop showField i [] acc = acc"
| "lookupLoop showField i (thisRow # rest) (sts, m) =
     (if i \<ge> maxColumns then (sts, m)
      else (let thisId = ID thisRow;
                thisTitle = rowValue thisRow showField;
                thisName = thisId @ '';#'' @ thisTitle
            in lookupLoop showField (i + 1) rest
                 (sts @ [newState ''lookup'' thisTitle thisName], m(thisName \<mapsto> length sts))))"

text \<open>
  \<open>getBoardStates opt f reply status\<close>: \<open>f\<close> is \<open>None\<close> when the list definition has no such
  field (or could not be read), \<open>reply\<close> is the answer of the query for the rows of a lookup
  list and \<open>status\<close> the global variable the lookup branch reads.  The promise is rejected
  with a message (\<open>Inl\<close>) or resolved with the columns stored in \<open>opt\<close> (\<open>Inr\<close>).
\<close>

definition getBoardStates :: "opt \<Rightarrow> list_column option \<Rightarrow> lookup_reply \<Rightarrow> string \<Rightarrow> string + opt" where
  "getBoardStates opt fo reply status =
     (case fo of
        None \<Rightarrow> Inl (''Field ('' @ field opt @ '') not found in list definition!'')
      | Some f \<Rightarrow>
          (let opt1 = opt\<lparr>field := col_Name f\<rparr>;
               opt2 = (if col_Required f = ''TRUE'' then opt1\<lparr>isStateRequired := True\<rparr> else opt1);
               opt3 = (case allowFieldBlanks opt2 of
                         Some b \<Rightarrow> opt2\<lparr>isStateRequired := \<not> b\<rparr>
                       | None \<Rightarrow> opt2)
           in if toLowerCase (col_Type f) = ''choice'' then
                (let acc = (if \<not> isStateRequired opt3
                            then (states opt3 @ [newState ''choice'' (optionalLabel opt3) (optionalLabel opt3)],
                                  (statesMap opt3)([] \<mapsto> length (states opt3)))
                            else (states opt3, statesMap opt3));
                     flt = (case fieldFilter opt3 of
                              Some s \<Rightarrow> if s \<noteq> [] then Some (split_comma s) else None
                            | None \<Rightarrow> None);
                     (sts, m) = choiceLoop flt 0 (col_values f) acc
                 in Inr (opt3\<lparr>states := sts, statesMap := m\<rparr>))
              else if toLowerCase (col_Type f) = ''lookup'' then
                (case reply of
                   Failed \<Rightarrow> Inl ''Unable to get rows from Lookup column list''
                 | Rows rws \<Rightarrow>
                     if status = ''error'' then Inl ''Communications Error!''
                     else
                       (let acc = (if \<not> isStateRequired opt3
                                   then (states opt3 @ [newState ''lookup'' (optionalLabel opt3) []],
                                         (statesMap opt3)([] \<mapsto> length (states opt3)))
                                   else (states opt3, statesMap opt3));
                            (sts, m) = lookupLoop (col_ShowField f) 0 rws acc
                        in Inr (opt3\<lparr>states := sts, statesMap := m\<rparr>)))
              else Inl (''Field ('' @ field opt3 @ '') Type ('' @ col_Type f @ '') is not supported!'')))"

text \<open>The widget instance as \<open>showBoard\<close> creates it (458-474), before the columns are read.\<close>

definition newOpt :: "string \<Rightarrow> string \<Rightarrow> opt" where
  "newOpt l f = \<lparr>list = l, field = f, fieldFilter = None,
                 optionalLabel = ''(none)'', allowFieldBlanks = None,
                 template = (\<lambda>r. ''<div>'' @ ID r @ ''</div>''),
                 onPreUpdate = None, states = [], statesMap = Map.empty, listItems = [],
                 initDone = False, isStateRequired = False, maxColumnVisible = 10,
                 showNumberOfColumns = 10, dataAttr = jqData\<rparr>"

definition choiceField :: "string \<Rightarrow> string \<Rightarrow> string list \<Rightarrow> list_column" where
  "choiceField n req vs = \<lparr>col_Name = n, col_Required = req, col_Type = ''Choice'',
                           col_List = [], col_ShowField = [], col_values = vs\<rparr>"

definition lookupField :: "string \<Rightarrow> string \<Rightarrow> list_column" where
  "lookupField n req = \<lparr>col_Name = n, col_Required = req, col_Type = ''Lookup'',
                        col_List = ''Projects'', col_ShowField = ''Title'', col_values = []\<rparr>"

section \<open>Reconciliation: \<open>showItemsOnBoard\<close> (board.js 647-960)\<close>

subsection \<open>The items on the page\<close>

definition boardItems :: "state_col list \<Rightarrow> board_item list" where
  "boardItems sts = concat (map dataEle sts)"

text \<open>\<open>opt.statesCntr.find("div[data-id='" + thisRowID + "']")\<close>\<close>

definition findItems :: "state_col list \<Rightarrow> string \<Rightarrow> board_item list" where
  "findItems sts i = filter (\<lambda>it. data_id it = i) (boardItems sts)"

text \<open>A change made to every element of that set: \<open>addClass\<close>, \<open>html\<close>.\<close>

definition onItems :: "string \<Rightarrow> (board_item \<Rightarrow> board_item) \<Rightarrow> state_col list \<Rightarrow> state_col list" where
  "onItems i f sts =
     map (\<lambda>s. s\<lparr>dataEle := map (\<lambda>it. if data_id it = i then f it else it) (dataEle s)\<rparr>) sts"

text \<open>
  \<open>boardItemCntr.closest("div.spwidget-board-state").data("boardstate")\<close>: what \<open>.data()\<close>
  makes of the attribute \<open>data-boardstate\<close>, which holds the name of the column (1937), of
  the column that holds the first element of the set.
\<close>

definition closestBoardstate :: "opt \<Rightarrow> state_col list \<Rightarrow> string \<Rightarrow> jsval" where
  "closestBoardstate opt sts i =
     (case filter (\<lambda>s. list_ex (\<lambda>it. data_id it = i) (dataEle s)) sts of
        [] \<Rightarrow> JUndefined
      | s # _ \<Rightarrow> dataAttr opt (name s))"

text \<open>\<open>boardItemCntr.appendTo(opt.statesMap[thisRowState].dataEle)\<close>: the elements leave
  their columns and become the last children of column \<open>k\<close>.\<close>

definition appendTo :: "string \<Rightarrow> nat \<Rightarrow> state_col list \<Rightarrow> state_col list" where
  "appendTo i k sts =
     map (\<lambda>(j, s). s\<lparr>dataEle := filter (\<lambda>it. data_id it \<noteq> i) (dataEle s) @
                                    (if j = k then findItems sts i else [])\<rparr>)
         (enumerate 0 sts)"

text \<open>
  \<open>boardItemCntr.appendTo(opt.statesMap[thisRowState].dataEle)\<close> for what the read of
  \<open>statesMap\<close> gave: an inherited value has no \<open>dataEle\<close>, and \<open>appendTo(undefined)\<close> moves
  nothing.
\<close>

fun appendToSlot :: "string \<Rightarrow> slot \<Rightarrow> state_col list \<Rightarrow> state_col list" where
  "appendToSlot i (Column k) sts = appendTo i k sts"
| "appendToSlot i Inherited sts = sts"

text \<open>\<open>dataEle.append(html)\<close> on column \<open>k\<close>.\<close>

definition appendItems :: "nat \<Rightarrow> board_item list \<Rightarrow> state_col list \<Rightarrow> state_col list" where
  "appendItems k its sts =
     map (\<lambda>(j, s). if j = k then s\<lparr>dataEle := dataEle s @ its\<rparr> else s) (enumerate 0 sts)"

subsection \<open>One pass\<close>

record thisOpt =
  rows :: "row list"
  refresh :: bool
  doBoardInsert :: bool

definition thisOpt_defaults :: "opt \<Rightarrow> thisOpt" where
  "thisOpt_defaults opt = \<lparr>rows = listItems opt, refresh = False, doBoardInsert = True\<rparr>"

text \<open>
  The local variables of a pass; \<open>itemsForBoard\<close> holds, for each state value, the new
  items waiting to be inserted, in the order the keys were stored.  In the source it is
  an object \<open>{}\<close> and the value under a key is the concatenation of the markup of the
  items; under a key that names an inherited property (other than \<open>__proto__\<close>) the
  markup follows the text of the inherited value, which \<open>append\<close> puts on the page as text
  in front of the items.
\<close>

record pass =
  board :: "state_col list"
  newItems :: "row list"
  chgItems :: "row list"
  itemsForBoard :: "(string \<times> board_item list) list"

fun addItem :: "string \<Rightarrow> board_item \<Rightarrow> (string \<times> board_item list) list \<Rightarrow> (string \<times> board_item list) list" where
  "addItem k it [] = [(k, [it])]"
| "addItem k it ((k', its) # rest) =
     (if k' = k then (k', its @ [it]) # rest else (k', its) # addItem k it rest)"

text \<open>
  \<open>thisListRow[opt.field] || ""\<close>, for a row that holds its values as its own properties.
  (Were the name of the field the name of an inherited property, a row without a value
  would yield the inherited function; see \<open>plainBoard\<close> below.)
\<close>

definition rowState :: "opt \<Rightarrow> row \<Rightarrow> string" where
  "rowState opt r = (case map_of (vals r) (field opt) of Some v \<Rightarrow> v | None \<Rightarrow> [])"

text \<open>
  \<open>itemsForBoard[thisRowState] += markup\<close> (725-737).  An assignment of a string to the
  property \<open>__proto__\<close> of an object is ignored: nothing is stored under that key.
\<close>

definition storeItem :: "string \<Rightarrow> board_item \<Rightarrow> (string \<times> board_item list) list \<Rightarrow> (string \<times> board_item list) list" where
  "storeItem k it ifb = (if k = ''__proto__'' then ifb else addItem k it ifb)"

text \<open>\<open>createNewItem(itemDataObj, $uiEle)\<close> (679-745); \<open>uiEle\<close> is the identifier whose
  elements were found on the board, if the call passes them.\<close>

definition createNewItem :: "opt \<Rightarrow> thisOpt \<Rightarrow> string \<Rightarrow> row \<Rightarrow> string option \<Rightarrow> pass \<Rightarrow> pass" where
  "createNewItem opt this thisRowState itemDataObj uiEle p =
     (let newItem = template opt itemDataObj
      in if uiEle \<noteq> None \<and> newItem \<noteq> []
         then p\<lparr>board := onItems (the uiEle) (\<lambda>it. it\<lparr>html := newItem\<rparr>) (board p)\<rparr>
         else if newItem \<noteq> []
         then p\<lparr>itemsForBoard :=
                  storeItem thisRowState
                    \<lparr>data_id = ID itemDataObj, html = newItem,
                     temp = (initDone opt \<and> refresh this)\<rparr>
                    (itemsForBoard p)\<rparr>
         else p)"

text \<open>The body of the loop over the rows (765-853).\<close>

definition placeRow :: "opt \<Rightarrow> thisOpt \<Rightarrow> pass \<Rightarrow> row \<Rightarrow> pass" where
  "placeRow opt this p thisListRow =
     (let thisRowState = rowState opt thisListRow;
          thisRowID = ID thisListRow
      in case statesMapAt opt thisRowState of
           None \<Rightarrow> p
         | Some target \<Rightarrow>
             if refresh this = False then
               createNewItem opt this thisRowState thisListRow None
                 (if initDone opt then p\<lparr>newItems := newItems p @ [thisListRow]\<rparr> else p)
             else if findItems (board p) thisRowID = [] then
               createNewItem opt this thisRowState thisListRow None
                 (if initDone opt then p\<lparr>newItems := newItems p @ [thisListRow]\<rparr> else p)
             else
               (let p1 = p\<lparr>board := onItems thisRowID (\<lambda>it. it\<lparr>temp := True\<rparr>) (board p)\<rparr>;
                    p2 = (if closestBoardstate opt (board p1) thisRowID \<noteq> JStr thisRowState
                          then p1\<lparr>board := appendToSlot thisRowID target (board p1),
                                  chgItems := chgItems p1 @ [thisListRow]\<rparr>
                          else p1)
                in createNewItem opt this thisRowState thisListRow (Some thisRowID) p2))"

text \<open>
  The insertion of the new items (864-872).  \<open>opt.statesMap[x].dataEle.append(...)\<close> throws
  a \<open>TypeError\<close> when the read of \<open>statesMap\<close> gives no column object: \<open>dataEle\<close> is then
  \<open>undefined\<close>.  The exception leaves \<open>showItemsOnBoard\<close> at once; the model keeps nothing
  of the page of a pass that threw.  (Where two keys lead to different columns, which
  is so for every \<open>statesMap\<close> that \<open>getBoardStates\<close> fills, the order in which the keys are
  visited does not show in the result.)
\<close>

datatype js_error = TypeError

fun insertIntoBoard :: "opt \<Rightarrow> (string \<times> board_item list) list \<Rightarrow> state_col list \<Rightarrow> js_error + state_col list" where
  "insertIntoBoard opt [] sts = Inr sts"
| "insertIntoBoard opt ((x, its) # rest) sts =
     (if its \<noteq> [] then
        (case statesMapAt opt x of
           Some (Column k) \<Rightarrow> insertIntoBoard opt rest (appendItems k its sts)
         | Some Inherited \<Rightarrow> Inl TypeError
         | None \<Rightarrow> Inl TypeError)
      else insertIntoBoard opt rest sts)"

text \<open>
  The loop tests \<open>itemsForBoard.hasOwnProperty(x)\<close> first (866): once items are stored under
  the key \<open>hasOwnProperty\<close>, that property is a string, and the call throws.
\<close>

definition insertItems :: "opt \<Rightarrow> (string \<times> board_item list) list \<Rightarrow> state_col list \<Rightarrow> js_error + state_col list" where
  "insertItems opt ifb sts =
     (if list_ex (\<lambda>e. fst e = ''hasOwnProperty'') ifb then Inl TypeError
      else insertIntoBoard opt ifb sts)"

text \<open>\<open>getBoardItemDataObject\<close> (586-620)\<close>

definition getBoardItemDataObject :: "opt \<Rightarrow> jsval \<Rightarrow> row option" where
  "getBoardItemDataObject opt itemId =
     (if jsval_truthy itemId
      then find (\<lambda>r. ID r = jsval_String itemId) (listItems opt)
      else None)"

text \<open>The sweep of a refresh (886-901): the items without the temporary class are pushed
  to \<open>delItems\<close> and removed, then the class is taken off the others.\<close>

definition sweptItems :: "opt \<Rightarrow> state_col list \<Rightarrow> row option list" where
  "sweptItems opt sts =
     map (\<lambda>it. getBoardItemDataObject opt (dataAttr opt (data_id it)))
         (filter (\<lambda>it. \<not> temp it) (boardItems sts))"

definition sweep :: "state_col list \<Rightarrow> state_col list" where
  "sweep sts =
     map (\<lambda>s. s\<lparr>dataEle := map (\<lambda>it. it\<lparr>temp := False\<rparr>) (filter temp (dataEle s))\<rparr>) sts"

text \<open>An element of the board, for \<open>getEventObject\<close>: the index of its column and its
  \<open>data-id\<close>.\<close>

record ui_item =
  ui_col :: nat
  ui_id :: string

definition firstItem :: "state_col list \<Rightarrow> ui_item option" where
  "firstItem sts =
     (case concat (map (\<lambda>(j, s). map (\<lambda>it. \<lparr>ui_col = j, ui_id = data_id it\<rparr>) (dataEle s))
                       (enumerate 0 sts)) of
        [] \<Rightarrow> None
      | u # _ \<Rightarrow> Some u)"

text \<open>\<open>getEventObject(uiItemEle)\<close> (1008-1043); \<open>itemObj\<close> is \<open>None\<close> for the object \<open>{}\<close>
  that stands in when the lookup finds no row.\<close>

definition getEventObject :: "opt \<Rightarrow> ui_item option \<Rightarrow> evData" where
  "getEventObject opt uiItemEle =
     (let u = (case uiItemEle of Some u \<Rightarrow> Some u | None \<Rightarrow> firstItem (states opt))
      in \<lparr>stateTotals = map (\<lambda>s. (name s, headerTotalEle s)) (states opt),
          itemTotal = sum_list (map headerTotalEle (states opt)),
          currentState = (case u of
                            None \<Rightarrow> JUndefined
                          | Some u \<Rightarrow> if ui_col u < length (states opt)
                                      then dataAttr opt (name (states opt ! ui_col u))
                                      else JUndefined),
          itemObj = (case u of
                       None \<Rightarrow> None
                     | Some u \<Rightarrow> getBoardItemDataObject opt (dataAttr opt (ui_id u))),
          itemsModified = [],
          updates = []\<rparr>)"

text \<open>The events of a pass (905-950).  Each event carries the event object as it is when
  the event is triggered.\<close>

definition boardEvents :: "opt \<Rightarrow> row list \<Rightarrow> row option list \<Rightarrow> row list \<Rightarrow> event list" where
  "boardEvents opt newI delI chgI =
     (if initDone opt then
        (let evData = getEventObject opt None
         in (if newI \<noteq> [] then [BoardItemAdd (evData\<lparr>itemsModified := [RecArray (map Some newI)]\<rparr>)] else []) @
            (if delI \<noteq> [] then [BoardItemRemove (evData\<lparr>itemsModified := [RecArray delI]\<rparr>)] else []) @
            (let evData' = evData\<lparr>itemsModified := map Rec (map Some newI @ delI @ map Some chgI)\<rparr>
             in if itemsModified evData' \<noteq> [] then [BoardChange evData'] else []))
      else [])"

text \<open>\<open>updBoardHeaders\<close> (970-996)\<close>

definition updBoardHeaders :: "opt \<Rightarrow> opt" where
  "updBoardHeaders opt =
     opt\<lparr>states := map (\<lambda>s. s\<lparr>headerTotalEle := length (dataEle s)\<rparr>) (states opt)\<rparr>"

record pass_result =
  r_opt :: opt
  r_itemsForBoard :: "(string \<times> board_item list) list"
  r_newItems :: "row list"
  r_delItems :: "row option list"
  r_chgItems :: "row list"
  r_events :: "event list"

text \<open>The pass after the insertion (874-958), for the columns \<open>sts1\<close> the insertion left.\<close>

definition finishPass :: "opt \<Rightarrow> thisOpt \<Rightarrow> pass \<Rightarrow> state_col list \<Rightarrow> pass_result" where
  "finishPass opt this p sts1 =
     (let delItems = (if initDone opt \<and> refresh this then sweptItems opt sts1 else []);
          sts2 = (if initDone opt \<and> refresh this then sweep sts1 else sts1);
          opt2 = opt\<lparr>states := sts2\<rparr>;
          evs = boardEvents opt2 (newItems p) delItems (chgItems p)
      in \<lparr>r_opt = updBoardHeaders opt2, r_itemsForBoard = itemsForBoard p,
          r_newItems = newItems p, r_delItems = delItems, r_chgItems = chgItems p,
          r_events = evs\<rparr>)"

text \<open>The loop over the rows (749-853), with the clearing of the board before it.\<close>

definition loopRows :: "opt \<Rightarrow> thisOpt \<Rightarrow> pass" where
  "loopRows opt this =
     (let sts0 = (if \<not> refresh this
                  then map (\<lambda>s. s\<lparr>headerTotalEle := 0, dataEle := []\<rparr>) (states opt)
                  else states opt)
      in foldl (placeRow opt this)
           \<lparr>board = sts0, newItems = [], chgItems = [], itemsForBoard = []\<rparr> (rows this))"

text \<open>A pass ends with what it leaves (\<open>Inr\<close>) or with the exception of the insertion
  (\<open>Inl\<close>), which is thrown before the sweep and before any event.\<close>

definition showItemsOnBoard :: "opt \<Rightarrow> thisOpt \<Rightarrow> js_error + pass_result" where
  "showItemsOnBoard opt this =
     (let p = loopRows opt this
      in case (if doBoardInsert this
               then insertItems opt (itemsForBoard p) (board p)
               else Inr (board p)) of
           Inl e \<Rightarrow> Inl e
         | Inr sts1 \<Rightarrow> Inr (finishPass opt this p sts1))"

text \<open>The events a pass has triggered, whichever way it ended.\<close>

fun triggered :: "js_error + pass_result \<Rightarrow> event list" where
  "triggered (Inl e) = []"
| "triggered (Inr r) = r_events r"

subsection \<open>The callers of a pass: first load (2135-2182) and the method \<open>refresh\<close> (415-421)\<close>

text \<open>\<open>fetched\<close> is the array of rows that \<open>_getListItems\<close> stores in \<open>opt.listItems\<close>.\<close>

definition firstLoad :: "opt \<Rightarrow> row list \<Rightarrow> js_error + pass_result" where
  "firstLoad opt fetched =
     (let opt1 = opt\<lparr>listItems := fetched\<rparr>
      in case showItemsOnBoard opt1 (thisOpt_defaults opt1) of
           Inl e \<Rightarrow> Inl e
         | Inr r \<Rightarrow>
             (let opt2 = (r_opt r)\<lparr>initDone := True\<rparr>
              in Inr (r\<lparr>r_opt := opt2,
                        r_events := r_events r @ [BoardCreate (getEventObject opt2 None)]\<rparr>)))"

definition refreshBoard :: "opt \<Rightarrow> row list \<Rightarrow> js_error + pass_result" where
  "refreshBoard opt fetched =
     (let opt1 = opt\<lparr>listItems := fetched\<rparr>
      in showItemsOnBoard opt1 ((thisOpt_defaults opt1)\<lparr>refresh := True\<rparr>))"

section \<open>Drag moves: the \<open>sortreceive\<close> handlers (board.js 1984-2083)\<close>

text \<open>
  The reply of the server to \<open>updateListItems\<close> and the helpers that read it
  (\<open>doesMsgHaveError\<close>, \<open>getMsgError\<close>, \<open>getNodesFromXml\<close>) live outside this file; the
  helpers are arguments of the model.
\<close>

record xData =
  responseXML :: string

record sputils =
  doesMsgHaveError :: "xData \<Rightarrow> bool"
  getMsgError :: "xData \<Rightarrow> string"
  getNodesFromXml :: "xData \<Rightarrow> row list"

datatype action =
    UpdateListItems string "string option" "(string \<times> jsval) list"
  | Trigger event
  | ResolveWith "row option" "row option" xData
  | RejectWith string xData string

record received =
  rc_opt :: opt
  rc_evData :: evData
  rc_call :: "(string \<times> string option \<times> (string \<times> jsval) list) option"

text \<open>
  Both handlers of \<open>sortreceive\<close>, in the order they are bound; \<open>item\<close> is \<open>ui.item\<close>, which
  the sortable widget has already put into the column it was dropped on.  \<open>moveIntent\<close>
  is the event object with the update of the field, as the hook \<open>onPreUpdate\<close> receives
  it; the hook answers with what it returns and with the updates it leaves in the object.
  \<open>rc_call\<close> is the call of \<open>updateListItems\<close> (list, ID, value pairs), if the handler
  makes one.
\<close>

definition moveIntent :: "opt \<Rightarrow> ui_item \<Rightarrow> evData" where
  "moveIntent opt item =
     (let evData = getEventObject opt (Some item)
      in evData\<lparr>updates := [(field opt, currentState evData)]\<rparr>)"

definition sortreceive :: "opt \<Rightarrow> ui_item \<Rightarrow> received" where
  "sortreceive opt0 item =
     (let opt = updBoardHeaders opt0;
          evData = moveIntent opt item;
          itemId = map_option ID (itemObj evData)
      in case onPreUpdate opt of
           Some hook \<Rightarrow>
             (case hook evData of
                (ReturnsTrue, ups) \<Rightarrow>
                  \<lparr>rc_opt = opt, rc_evData = evData\<lparr>updates := ups\<rparr>, rc_call = None\<rparr>
              | (ReturnsOther, ups) \<Rightarrow>
                  if ups = []
                  then \<lparr>rc_opt = opt, rc_evData = evData\<lparr>updates := ups\<rparr>, rc_call = None\<rparr>
                  else \<lparr>rc_opt = opt, rc_evData = evData\<lparr>updates := ups\<rparr>,
                        rc_call = Some (list opt, itemId, ups)\<rparr>)
         | None \<Rightarrow>
             if updates evData = []
             then \<lparr>rc_opt = opt, rc_evData = evData, rc_call = None\<rparr>
             else \<lparr>rc_opt = opt, rc_evData = evData,
                   rc_call = Some (list opt, itemId, updates evData)\<rparr>)"

text \<open>\<open>completefunc(xData, status)\<close> (2044-2080)\<close>

definition completefunc :: "sputils \<Rightarrow> evData \<Rightarrow> xData \<Rightarrow> string \<Rightarrow> action list" where
  "completefunc u evData xd status =
     (if status = ''error'' then [RejectWith ''Communications Error!'' xd status]
      else if doesMsgHaveError u xd then [RejectWith (getMsgError u xd) xd status]
      else (let row = getNodesFromXml u xd
            in [Trigger (BoardChange evData),
                ResolveWith (case row of [] \<Rightarrow> None | r # _ \<Rightarrow> Some r) (itemObj evData) xd]))"

text \<open>A whole gesture: the handlers, then the reply \<open>(xd, status)\<close> of the server to the
  call, if one was made.\<close>

definition dragMove :: "sputils \<Rightarrow> opt \<Rightarrow> ui_item \<Rightarrow> xData \<Rightarrow> string \<Rightarrow> opt \<times> action list" where
  "dragMove u opt item xd status =
     (let r = sortreceive opt item
      in case rc_call r of
           None \<Rightarrow> (rc_opt r, [])
         | Some (l, i, ups) \<Rightarrow>
             (rc_opt r, UpdateListItems l i ups # completefunc u (rc_evData r) xd status))"

text \<open>
  The test of the loop, \<open>if (opt.statesMap[thisRowState])\<close>, as a predicate on a row; and
  whether a list of rows holds a row with a given identifier that passes it.
\<close>

definition passesGuard :: "opt \<Rightarrow> row \<Rightarrow> bool" where
  "passesGuard opt r = (statesMapAt opt (rowState opt r) \<noteq> None)"

definition passedBy :: "opt \<Rightarrow> row list \<Rightarrow> string \<Rightarrow> bool" where
  "passedBy opt rws i = list_ex (\<lambda>r. ID r = i \<and> passesGuard opt r) rws"

text \<open>
  The value of a row is the key of a column of the board; and whether a list of rows
  holds such a row with a given identifier.  A row whose value is an inherited name and
  no key passes the test of the loop without being on a column.
\<close>

definition onBoardColumn :: "opt \<Rightarrow> row \<Rightarrow> bool" where
  "onBoardColumn opt r = (statesMap opt (rowState opt r) \<noteq> None)"







text \<open>Sample boards, as the widget builds them for a choice field.\<close>

definition mkState :: "string \<Rightarrow> bool \<Rightarrow> state_col" where
  "mkState v vis = \<lparr>type = ''choice'', title = v, name = v, isVisible = vis,
                    dataEle = [], headerTotalEle = 0\<rparr>"

definition mkOpt :: "state_col list \<Rightarrow> (string \<rightharpoonup> nat) \<Rightarrow> opt" where
  "mkOpt sts m = \<lparr>list = ''Tasks'', field = ''Status'', fieldFilter = None,
                  optionalLabel = ''(none)'', allowFieldBlanks = None,
                  template = (\<lambda>r. ''<div>'' @ ID r @ ''</div>''),
                  onPreUpdate = None, states = sts, statesMap = m, listItems = [],
                  initDone = True, isStateRequired = True, maxColumnVisible = 10,
                  showNumberOfColumns = min (length sts) 10, dataAttr = jqData\<rparr>"

definition board3 :: opt where
  "board3 = mkOpt [mkState ''Not Started'' True, mkState ''In Progress'' True, mkState ''Done'' True]
                  [''Not Started'' \<mapsto> 0, ''In Progress'' \<mapsto> 1, ''Done'' \<mapsto> 2]"

definition board3h :: opt where
  "board3h = svc_opt (setUserDefinedVisibleCol board3 (Arr [''Not Started'', ''In Progress'']))"

definition names12 :: "string list" where
  "names12 = [''c00'', ''c01'', ''c02'', ''c03'', ''c04'', ''c05'',
              ''c06'', ''c07'', ''c08'', ''c09'', ''c10'', ''c11'']"

definition board12 :: opt where
  "board12 = buildBoardColumns (mkOpt (map (\<lambda>v. mkState v False) names12)
                                      (map_of (zip names12 [0..<12])))"

definition names20 :: "string list" where
  "names20 = names12 @ [''c12'', ''c13'', ''c14'', ''c15'', ''c16'', ''c17'', ''c18'', ''c19'']"

definition board20 :: opt where
  "board20 = buildBoardColumns (mkOpt (map (\<lambda>v. mkState v False) names20)
                                      (map_of (zip names20 [0..<20])))"

definition statusChoice :: "string \<Rightarrow> string list \<Rightarrow> list_column option" where
  "statusChoice req vs = Some (choiceField ''Status'' req vs)"

text \<open>A board of three columns with two cards, after its first load, and a refresh of it.\<close>

definition statusRow :: "string \<Rightarrow> string \<Rightarrow> row" where
  "statusRow i s = \<lparr>ID = i, vals = [(''Status'', s)]\<rparr>"

definition unloaded3 :: opt where
  "unloaded3 = buildBoardColumns (projr (getBoardStates (newOpt ''Tasks'' ''Status'')
                 (statusChoice ''TRUE'' [''Not Started'', ''In Progress'', ''Done'']) Failed []))"

definition loaded3 :: opt where
  "loaded3 = r_opt (projr (firstLoad unloaded3
                 [statusRow ''1'' ''Done'', statusRow ''2'' ''Not Started'']))"

definition fresh3 :: "row list" where
  "fresh3 = [statusRow ''1'' ''Bogus'', statusRow ''2'' ''Done'', statusRow ''4'' ''In Progress'']"

text \<open>Card 2 of that board after it was dropped on the column \<open>In Progress\<close>, a hook that
  cancels, a hook that empties the updates, and the helpers reading a reply.\<close>

definition dropped3 :: opt where
  "dropped3 = loaded3\<lparr>states :=
                appendTo ''2'' 1 (states loaded3)\<rparr>"

definition card2 :: ui_item where
  "card2 = \<lparr>ui_col = 1, ui_id = ''2''\<rparr>"

definition cancelHook :: "evData \<Rightarrow> hook_ret \<times> (string \<times> jsval) list" where
  "cancelHook d = (ReturnsTrue, updates d)"

definition emptyHook :: "evData \<Rightarrow> hook_ret \<times> (string \<times> jsval) list" where
  "emptyHook d = (ReturnsOther, [])"

definition replyReader :: sputils where
  "replyReader = \<lparr>doesMsgHaveError = (\<lambda>x. responseXML x = ''<ErrorCode>0x81020014</ErrorCode>''),
                  getMsgError = (\<lambda>x. ''Invalid value''),
                  getNodesFromXml = (\<lambda>x. if responseXML x = ''<z:row ows_ID=2 />''
                                           then [statusRow ''2'' ''In Progress''] else [])\<rparr>"





text \<open>Rows for a refresh of \<open>loaded3\<close> whose values are names that every object inherits.\<close>

definition inherited3 :: "row list" where
  "inherited3 = [statusRow ''1'' ''constructor'', statusRow ''2'' ''Not Started'']"

definition inherited4 :: "row list" where
  "inherited4 = [statusRow ''1'' ''Done'', statusRow ''2'' ''Not Started'',
                 statusRow ''4'' ''toString'']"

definition proto4 :: "row list" where
  "proto4 = [statusRow ''1'' ''Done'', statusRow ''2'' ''Not Started'',
             statusRow ''4'' ''__proto__'']"

text \<open>A board whose columns are named by numbers, loaded with one card.\<close>

definition numbered :: opt where
  "numbered = r_opt (projr (firstLoad
       (buildBoardColumns (projr (getBoardStates (newOpt ''Tasks'' ''Priority'')
          (Some (choiceField ''Priority'' ''TRUE'' [''1'', ''2''])) Failed [])))
       [\<lparr>ID = ''7'', vals = [(''Priority'', ''1'')]\<rparr>]))"

text \<open>Two boards with a blank column, one for an optional choice field and one for an
  optional lookup field, each loaded with a card without a value and a card with one.\<close>

definition blankRows :: "string \<Rightarrow> string \<Rightarrow> row list" where
  "blankRows f v = [\<lparr>ID = ''1'', vals = [(f, [])]\<rparr>, \<lparr>ID = ''2'', vals = [(f, v)]\<rparr>]"

definition optionalChoice :: opt where
  "optionalChoice =
     r_opt (projr (firstLoad
       (buildBoardColumns (projr (getBoardStates (newOpt ''Tasks'' ''Status'')
          (statusChoice ''FALSE'' [''Not Started'', ''In Progress'', ''Done'']) Failed [])))
       (blankRows ''Status'' ''Done'')))"

definition optionalLookup :: opt where
  "optionalLookup =
     r_opt (projr (firstLoad
       (buildBoardColumns (projr (getBoardStates (newOpt ''Tasks'' ''Project'')
          (Some (lookupField ''Project'' ''FALSE''))
          (Rows [\<lparr>ID = ''3'', vals = [(''Title'', ''Apollo'')]\<rparr>]) [])))
       (blankRows ''Project'' ''3;#Apollo'')))"

section \<open>Properties of the column model\<close>

lemma visible_after_build:
  "length (filter isVisible
      (map (\<lambda>(i, v). v\<lparr>isVisible := \<not> (int i > int mx - 1), dataEle := [], headerTotalEle := 0\<rparr>)
           (enumerate k xs))) = min (length xs) (mx - k)"
  by (induction xs arbitrary: k) auto

lemma visibleCount_buildBoardColumns:
  "visibleCount (buildBoardColumns opt) = min (length (states opt)) (maxColumnVisible opt)"
  using visible_after_build [of "maxColumnVisible opt" 0 "states opt"]
  by (simp add: visibleCount_def buildBoardColumns_def Let_def)

lemma showHideLoop_below:
  "count + length (filter (\<lambda>s. inList s cl) sts) < mx \<Longrightarrow>
   showHideLoop mx cl count sts =
     (map (\<lambda>s. s\<lparr>isVisible := inList s cl\<rparr>) sts, count + length (filter (\<lambda>s. inList s cl) sts))"
  by (induction sts arbitrary: count) (auto simp: Let_def)

lemma visibleCount_setBoardColumnClass:
  "visibleCount (setBoardColumnClass c opt) = visibleCount opt"
  by (simp add: setBoardColumnClass_def visibleCount_def Let_def)

lemma setVisible_rejected:
  "\<not> isArray arg \<or> length (elems arg) < 2 \<Longrightarrow>
   setUserDefinedVisibleCol opt arg = \<lparr>svc_opt = opt, svc_events = [], svc_return = RetUndefined\<rparr>"
  by (cases arg) (auto simp: setUserDefinedVisibleCol_def Let_def)

lemma setVisible_below_max:
  assumes "2 \<le> length cl"
    and "length (filter (\<lambda>s. inList s cl) (states opt)) < maxColumnVisible opt"
  shows "visibleCount (svc_opt (setUserDefinedVisibleCol opt (Arr cl))) =
         length (filter (\<lambda>s. inList s cl) (states opt))"
proof -
  have loop: "showHideLoop (maxColumnVisible opt) cl 0 (states opt) =
     (map (\<lambda>s. s\<lparr>isVisible := inList s cl\<rparr>) (states opt),
      length (filter (\<lambda>s. inList s cl) (states opt)))"
    using showHideLoop_below [of 0 cl "states opt" "maxColumnVisible opt"] assms(2) by simp
  from assms(1) have ne: "cl \<noteq> []" by auto
  show ?thesis
    using assms(1) ne
    by (simp add: setUserDefinedVisibleCol_def Let_def loop visibleCount_setBoardColumnClass)
       (simp add: visibleCount_def comp_def)
qed

lemma states_setBoardColumnClass: "states (setBoardColumnClass c opt) = states opt"
  by (simp add: setBoardColumnClass_def Let_def)

lemma setVisible_below_max_states:
  assumes "2 \<le> length cl"
    and "length (filter (\<lambda>s. inList s cl) (states opt)) < maxColumnVisible opt"
  shows "states (svc_opt (setUserDefinedVisibleCol opt (Arr cl))) =
         map (\<lambda>s. s\<lparr>isVisible := inList s cl\<rparr>) (states opt)"
proof -
  have loop: "showHideLoop (maxColumnVisible opt) cl 0 (states opt) =
     (map (\<lambda>s. s\<lparr>isVisible := inList s cl\<rparr>) (states opt),
      length (filter (\<lambda>s. inList s cl) (states opt)))"
    using showHideLoop_below [of 0 cl "states opt" "maxColumnVisible opt"] assms(2) by simp
  from assms(1) have ne: "cl \<noteq> []" by auto
  show ?thesis
    using assms(1) ne
    by (simp add: setUserDefinedVisibleCol_def Let_def loop states_setBoardColumnClass)
qed

lemma setVisible_returns_nothing:
  "svc_return (setUserDefinedVisibleCol opt arg) = RetUndefined"
  by (cases arg) (auto simp: setUserDefinedVisibleCol_def Let_def split: prod.splits)

lemma visible_board3: "map isVisible (states board3) = [True, True, True]"
  by (simp add: board3_def mkOpt_def mkState_def)

text \<open>
  C3, as the specification states it, at its own scenario: one name is given, fewer than
  two names resolve, and the call does not return \<open>false\<close>; it returns nothing.
\<close>

theorem setVisible_single_name_counterexample:
  "length (filter (isValidColumn board3) [''Done'']) < 2 \<and>
   \<not> (map isVisible (states (svc_opt (setUserDefinedVisibleCol board3 (Arr [''Done''])))) =
        map isVisible (states board3) \<and>
      svc_return (setUserDefinedVisibleCol board3 (Arr [''Done''])) = RetBool False)"
  by (simp add: setVisible_returns_nothing)

text \<open>
  C3, amended: a list of exactly one name, which the test \<open>colList.length < 2\<close> turns
  away, changes nothing (no visibility flag, no event); and \<open>setVisible\<close> returns no
  value, whatever its argument.
\<close>

theorem setVisible_short_list_changes_nothing:
  "svc_return (setUserDefinedVisibleCol opt arg) = RetUndefined \<and>
   (length cl = 1 \<longrightarrow>
      svc_opt (setUserDefinedVisibleCol opt (Arr cl)) = opt \<and>
      svc_events (setUserDefinedVisibleCol opt (Arr cl)) = [])"
  by (simp add: setVisible_returns_nothing setVisible_rejected)

theorem setVisible_short_list_changes_nothing_witness:
  "length [''Done''] = 1 \<and>
   svc_return (setUserDefinedVisibleCol board3 (Arr [''Done'', ''Not Started''])) = RetUndefined \<and>
   map isVisible (states (svc_opt (setUserDefinedVisibleCol board3 (Arr [''Done''])))) = [True, True, True] \<and>
   svc_events (setUserDefinedVisibleCol board3 (Arr [''Done''])) = []"
  using setVisible_short_list_changes_nothing
          [of board3 "Arr [''Done'', ''Not Started'']" "[''Done'']"]
  by (simp add: visible_board3)

text \<open>
  C4 at a board whose third column is hidden: \<open>setVisible "all"\<close> leaves it hidden, and
  every other flag as it was.
\<close>

theorem setVisible_all_leaves_hidden_column:
  "map isVisible (states board3h) = [True, True, False] \<and>
   map isVisible (states (svc_opt (setUserDefinedVisibleCol board3h (Str ''all'')))) =
     [True, True, False] \<and>
   svc_events (setUserDefinedVisibleCol board3h (Str ''all'')) = []"
proof -
  have h: "map isVisible (states board3h) = [True, True, False]"
    by (simp add: board3h_def setUserDefinedVisibleCol_def Let_def board3_def mkOpt_def
          mkState_def inList_def setBoardColumnClass_def)
  have n: "\<not> isArray (Str ''all'') \<or> length (elems (Str ''all'')) < 2" by simp
  show ?thesis
    using h by (simp add: setVisible_rejected [OF n])
qed

theorem setVisible_all_leaves_hidden_column_witness:
  "length (filter isVisible (states (svc_opt (setUserDefinedVisibleCol board3h (Str ''all''))))) = 2 \<and>
   length (states (svc_opt (setUserDefinedVisibleCol board3h (Str ''all'')))) = 3"
proof -
  have "length (filter id (map isVisible (states (svc_opt (setUserDefinedVisibleCol board3h (Str ''all'')))))) = 2 \<and>
        length (map isVisible (states (svc_opt (setUserDefinedVisibleCol board3h (Str ''all''))))) = 3"
    using setVisible_all_leaves_hidden_column by simp
  then show ?thesis by (simp add: filter_map comp_def)
qed

text \<open>
  C5 at a board of twelve columns, the first ten visible: the twelve names are given
  last column first.  The ten columns that end up visible are the first ten of the
  board, not the first ten of the list, and the last two columns are never visited.
\<close>

theorem setVisible_over_max_keeps_board_order:
  "map isVisible (states board12) =
     [True, True, True, True, True, True, True, True, True, True, False, False] \<and>
   map isVisible (states (svc_opt (setUserDefinedVisibleCol board12 (Arr (rev names12))))) =
     [True, True, True, True, True, True, True, True, True, True, False, False]"
  by code_simp

theorem setVisible_over_max_keeps_board_order_witness:
  "map isVisible (states (svc_opt (setUserDefinedVisibleCol board12 (Arr (rev names12))))) \<noteq>
     [False, False, True, True, True, True, True, True, True, True, True, True]"
  using setVisible_over_max_keeps_board_order by simp

text \<open>
  C9, as the specification states it, at a required choice field with a single value: the
  board has one column, and one visible column once it is built.
\<close>

theorem visible_count_one_column_counterexample:
  "\<not> isl (getBoardStates (newOpt ''Tasks'' ''Status'') (statusChoice ''TRUE'' [''Only'']) Failed []) \<and>
   visibleCount (buildBoardColumns (projr
      (getBoardStates (newOpt ''Tasks'' ''Status'') (statusChoice ''TRUE'' [''Only'']) Failed []))) < 2"
  by code_simp

text \<open>
  C9, amended: once the board is built, the number of visible columns is the smaller of
  the number of columns and \<open>maxColumnVisible\<close>, so it is at least 2 when there are two
  columns or more; a \<open>setVisible\<close> with a list of exactly one name leaves the board, and so
  the number, as it is; one with two or more entries that match at least 2 and fewer
  than \<open>maxColumnVisible\<close> columns leaves exactly the matched columns visible: every
  column that matches is visible afterwards, every other column is hidden, nothing else
  of a column changes, and the number of visible columns is the number of matches.
\<close>

theorem visible_count_after_build_and_setVisible:
  "visibleCount (buildBoardColumns opt) = min (length (states opt)) (maxColumnVisible opt) \<and>
   (2 \<le> length (states opt) \<and> 2 \<le> maxColumnVisible opt \<longrightarrow>
      2 \<le> visibleCount (buildBoardColumns opt) \<and>
      visibleCount (buildBoardColumns opt) \<le> maxColumnVisible opt) \<and>
   (length one = 1 \<longrightarrow>
      svc_opt (setUserDefinedVisibleCol opt (Arr one)) = opt \<and>
      visibleCount (svc_opt (setUserDefinedVisibleCol opt (Arr one))) = visibleCount opt) \<and>
   (2 \<le> length cl \<and> 2 \<le> length (filter (\<lambda>s. inList s cl) (states opt)) \<and>
    length (filter (\<lambda>s. inList s cl) (states opt)) < maxColumnVisible opt \<longrightarrow>
      states (svc_opt (setUserDefinedVisibleCol opt (Arr cl))) =
        map (\<lambda>s. s\<lparr>isVisible := inList s cl\<rparr>) (states opt) \<and>
      map isVisible (states (svc_opt (setUserDefinedVisibleCol opt (Arr cl)))) =
        map (\<lambda>s. inList s cl) (states opt) \<and>
      visibleCount (svc_opt (setUserDefinedVisibleCol opt (Arr cl))) =
        length (filter (\<lambda>s. inList s cl) (states opt)) \<and>
      2 \<le> visibleCount (svc_opt (setUserDefinedVisibleCol opt (Arr cl))) \<and>
      visibleCount (svc_opt (setUserDefinedVisibleCol opt (Arr cl))) \<le> maxColumnVisible opt)"
  by (simp add: visibleCount_buildBoardColumns setVisible_rejected setVisible_below_max
        setVisible_below_max_states comp_def)

theorem visible_count_after_build_and_setVisible_witness:
  "visibleCount (buildBoardColumns board3) = 3 \<and>
   2 \<le> length (states board3) \<and> 2 \<le> maxColumnVisible board3 \<and>
   2 \<le> visibleCount (buildBoardColumns board3) \<and>
   length [''Done''] = 1 \<and>
   visibleCount (svc_opt (setUserDefinedVisibleCol board3 (Arr [''Done'']))) = visibleCount board3 \<and>
   2 \<le> length [''Done'', ''In Progress''] \<and>
   2 \<le> length (filter (\<lambda>s. inList s [''Done'', ''In Progress'']) (states board3)) \<and>
   length (filter (\<lambda>s. inList s [''Done'', ''In Progress'']) (states board3)) < maxColumnVisible board3 \<and>
   map isVisible (states (svc_opt (setUserDefinedVisibleCol board3 (Arr [''Done'', ''In Progress''])))) =
     [False, True, True] \<and>
   visibleCount (svc_opt (setUserDefinedVisibleCol board3 (Arr [''Done'', ''In Progress'']))) = 2"
  using visible_count_after_build_and_setVisible
          [of board3 "[''Done'']" "[''Done'', ''In Progress'']"]
  by (simp add: board3_def mkOpt_def mkState_def inList_def)

text \<open>
  The two cases the amended C3 and C9 leave aside.  The count of the validation loop is
  not read, so a list of two names of which one resolves is applied and leaves one
  column visible.  The show/hide loop stops at the tenth match, so the columns behind it
  keep their flag: on a board of twenty columns, showing the last ten and then the
  first ten leaves all twenty visible.
\<close>

lemma setVisible_applies_list_with_one_match:
  "validateCount board3 0 [''Done'', ''zzz''] = 1 \<and>
   map isVisible (states (svc_opt (setUserDefinedVisibleCol board3 (Arr [''Done'', ''zzz''])))) =
     [False, False, True]"
  by code_simp

lemma setVisible_twice_shows_twenty:
  "visibleCount board20 = 10 \<and>
   visibleCount (svc_opt (setUserDefinedVisibleCol board20 (Arr (drop 10 names20)))) = 10 \<and>
   visibleCount (svc_opt (setUserDefinedVisibleCol
       (svc_opt (setUserDefinedVisibleCol board20 (Arr (drop 10 names20))))
       (Arr (take 10 names20)))) = 20"
  by code_simp

section \<open>Properties of the field domain\<close>

text \<open>
  C6 at an optional choice field and at an optional lookup field: the blank column comes
  first in both, its name is the label \<open>(none)\<close> for the choice field and the empty
  string for the lookup field.
\<close>

theorem blank_state_name_choice_and_lookup:
  "map name (states (projr (getBoardStates (newOpt ''Tasks'' ''Status'')
      (statusChoice ''FALSE'' [''Not Started'', ''In Progress'', ''Done'']) Failed []))) =
     [''(none)'', ''Not Started'', ''In Progress'', ''Done''] \<and>
   map name (states (projr (getBoardStates (newOpt ''Tasks'' ''Project'')
      (Some (lookupField ''Project'' ''FALSE''))
      (Rows [\<lparr>ID = ''3'', vals = [(''Title'', ''Apollo'')]\<rparr>]) []))) =
     [[], ''3;#Apollo'']"
  by code_simp

theorem blank_state_name_choice_and_lookup_witness:
  "hd (map name (states (projr (getBoardStates (newOpt ''Tasks'' ''Status'')
      (statusChoice ''FALSE'' [''Not Started'', ''In Progress'', ''Done'']) Failed [])))) \<noteq> []"
  using blank_state_name_choice_and_lookup by simp

text \<open>
  What the name of the blank column of a choice field leads to.  The column is stored
  under the key \<open>""\<close> and carries the label as its \<open>data-boardstate\<close>: a refresh with the
  very rows the board shows reports the card without a value as moved and triggers the
  change event, and a card dropped on the blank column is sent to the server with the
  label as its new value.  On the board of the lookup field the same refresh reports and
  triggers nothing.
\<close>

lemma blank_choice_column_is_out_of_step:
  "map (\<lambda>s. (name s, map data_id (dataEle s))) (states optionalChoice) =
     [(''(none)'', [''1'']), (''Not Started'', []), (''In Progress'', []), (''Done'', [''2''])] \<and>
   \<not> isl (refreshBoard optionalChoice (blankRows ''Status'' ''Done'')) \<and>
   r_chgItems (projr (refreshBoard optionalChoice (blankRows ''Status'' ''Done''))) =
     [\<lparr>ID = ''1'', vals = [(''Status'', [])]\<rparr>] \<and>
   length (r_events (projr (refreshBoard optionalChoice (blankRows ''Status'' ''Done'')))) = 1 \<and>
   rc_call (sortreceive (optionalChoice\<lparr>states := appendTo ''2'' 0 (states optionalChoice)\<rparr>)
              \<lparr>ui_col = 0, ui_id = ''2''\<rparr>) =
     Some (''Tasks'', Some ''2'', [(''Status'', JStr ''(none)'')])"
  by code_simp

lemma blank_lookup_column_is_in_step:
  "map (\<lambda>s. (name s, map data_id (dataEle s))) (states optionalLookup) =
     [([], [''1'']), (''3;#Apollo'', [''2''])] \<and>
   \<not> isl (refreshBoard optionalLookup (blankRows ''Project'' ''3;#Apollo'')) \<and>
   r_chgItems (projr (refreshBoard optionalLookup (blankRows ''Project'' ''3;#Apollo''))) = [] \<and>
   r_events (projr (refreshBoard optionalLookup (blankRows ''Project'' ''3;#Apollo''))) = []"
  by code_simp

section \<open>Properties of a reconciliation pass\<close>

lemma showItemsOnBoard_returned:
  assumes "showItemsOnBoard opt this = Inr r"
  obtains sts1 where "r = finishPass opt this (loopRows opt this) sts1"
    and "(if doBoardInsert this
          then insertItems opt (itemsForBoard (loopRows opt this)) (board (loopRows opt this))
          else Inr (board (loopRows opt this))) = Inr sts1"
  using assms unfolding showItemsOnBoard_def Let_def
  by (cases "if doBoardInsert this
             then insertItems opt (itemsForBoard (loopRows opt this)) (board (loopRows opt this))
             else Inr (board (loopRows opt this))") auto

lemma finishPass_events_exist:
  "((\<exists>d. BoardItemAdd d \<in> set (r_events (finishPass opt this p sts1))) \<longleftrightarrow>
      initDone opt \<and> r_newItems (finishPass opt this p sts1) \<noteq> []) \<and>
   ((\<exists>d. BoardItemRemove d \<in> set (r_events (finishPass opt this p sts1))) \<longleftrightarrow>
      initDone opt \<and> r_delItems (finishPass opt this p sts1) \<noteq> []) \<and>
   ((\<exists>d. BoardChange d \<in> set (r_events (finishPass opt this p sts1))) \<longleftrightarrow>
      initDone opt \<and> (r_newItems (finishPass opt this p sts1) \<noteq> [] \<or>
                       r_delItems (finishPass opt this p sts1) \<noteq> [] \<or>
                       r_chgItems (finishPass opt this p sts1) \<noteq> []))"
  by (auto simp: finishPass_def boardEvents_def Let_def)

lemma finishPass_before_init:
  "\<not> initDone opt \<Longrightarrow> r_events (finishPass opt this p sts1) = []"
  by (simp add: finishPass_def boardEvents_def Let_def)

lemma finishPass_itemsModified:
  "(\<forall>d. BoardItemAdd d \<in> set (r_events (finishPass opt this p sts1)) \<longrightarrow>
        itemsModified d = [RecArray (map Some (r_newItems (finishPass opt this p sts1)))]) \<and>
   (\<forall>d. BoardItemRemove d \<in> set (r_events (finishPass opt this p sts1)) \<longrightarrow>
        itemsModified d = [RecArray (r_delItems (finishPass opt this p sts1))]) \<and>
   (\<forall>d. BoardChange d \<in> set (r_events (finishPass opt this p sts1)) \<longrightarrow>
        itemsModified d = map Rec (map Some (r_newItems (finishPass opt this p sts1)) @
                                   r_delItems (finishPass opt this p sts1) @
                                   map Some (r_chgItems (finishPass opt this p sts1))))"
  by (auto simp: finishPass_def boardEvents_def Let_def split: if_splits)

lemma pass_events_exist:
  assumes "showItemsOnBoard opt this = Inr r"
  shows "((\<exists>d. BoardItemAdd d \<in> set (r_events r)) \<longleftrightarrow> initDone opt \<and> r_newItems r \<noteq> []) \<and>
   ((\<exists>d. BoardItemRemove d \<in> set (r_events r)) \<longleftrightarrow> initDone opt \<and> r_delItems r \<noteq> []) \<and>
   ((\<exists>d. BoardChange d \<in> set (r_events r)) \<longleftrightarrow>
      initDone opt \<and> (r_newItems r \<noteq> [] \<or> r_delItems r \<noteq> [] \<or> r_chgItems r \<noteq> []))"
proof -
  from assms obtain sts1 where r: "r = finishPass opt this (loopRows opt this) sts1"
    by (rule showItemsOnBoard_returned)
  show ?thesis unfolding r by (rule finishPass_events_exist)
qed

lemma pass_before_init:
  assumes "\<not> initDone opt"
  shows "triggered (showItemsOnBoard opt this) = []"
proof (cases "showItemsOnBoard opt this")
  case (Inl e)
  then show ?thesis by simp
next
  case (Inr r)
  then obtain sts1 where "r = finishPass opt this (loopRows opt this) sts1"
    by (rule showItemsOnBoard_returned)
  with Inr assms show ?thesis by (simp add: finishPass_before_init)
qed

lemma firstLoad_events:
  assumes "\<not> initDone opt"
  shows "(\<forall>ev \<in> set (triggered (firstLoad opt fetched)). \<exists>d. ev = BoardCreate d) \<and>
         (firstLoad opt fetched = Inr r' \<longrightarrow>
            r_events r' = [BoardCreate (getEventObject (r_opt r') None)] \<and>
            initDone (r_opt r'))"
proof (cases "showItemsOnBoard (opt\<lparr>listItems := fetched\<rparr>)
                (thisOpt_defaults (opt\<lparr>listItems := fetched\<rparr>))")
  case (Inl e)
  then show ?thesis by (simp add: firstLoad_def Let_def)
next
  case (Inr r)
  have "\<not> initDone (opt\<lparr>listItems := fetched\<rparr>)" using assms by simp
  from pass_before_init [OF this, of "thisOpt_defaults (opt\<lparr>listItems := fetched\<rparr>)"] Inr
  have "r_events r = []" by simp
  with Inr show ?thesis by (auto simp: firstLoad_def Let_def)
qed

lemma pass_returns: "\<not> isl x \<Longrightarrow> x = Inr (projr x)"
  by (cases x) auto

lemma refresh_loaded3_returns:
  "showItemsOnBoard (loaded3\<lparr>listItems := fresh3\<rparr>)
     ((thisOpt_defaults (loaded3\<lparr>listItems := fresh3\<rparr>))\<lparr>refresh := True\<rparr>) =
   Inr (projr (refreshBoard loaded3 fresh3))"
proof -
  have "\<not> isl (refreshBoard loaded3 fresh3)" by code_simp
  from pass_returns [OF this] show ?thesis by (simp add: refreshBoard_def Let_def)
qed

text \<open>
  C2: a pass made before \<open>initDone\<close> is set triggers no event; the add, remove and change
  events of a pass are triggered exactly when \<open>initDone\<close> is set and the list they report
  is not empty (a pass that throws has triggered nothing); the first load, which runs
  its pass and only then sets \<open>initDone\<close>, triggers the create event and nothing else.
\<close>

theorem events_need_init_and_items:
  "(\<not> initDone opt \<longrightarrow> triggered (showItemsOnBoard opt this) = []) \<and>
   (showItemsOnBoard opt this = Inr r \<longrightarrow>
      triggered (showItemsOnBoard opt this) = r_events r \<and>
      ((\<exists>d. BoardItemAdd d \<in> set (r_events r)) \<longleftrightarrow> initDone opt \<and> r_newItems r \<noteq> []) \<and>
      ((\<exists>d. BoardItemRemove d \<in> set (r_events r)) \<longleftrightarrow> initDone opt \<and> r_delItems r \<noteq> []) \<and>
      ((\<exists>d. BoardChange d \<in> set (r_events r)) \<longleftrightarrow>
         initDone opt \<and> (r_newItems r \<noteq> [] \<or> r_delItems r \<noteq> [] \<or> r_chgItems r \<noteq> []))) \<and>
   (\<not> initDone opt \<longrightarrow>
      (\<forall>ev \<in> set (triggered (firstLoad opt fetched)). \<exists>d. ev = BoardCreate d) \<and>
      (firstLoad opt fetched = Inr r' \<longrightarrow>
         r_events r' = [BoardCreate (getEventObject (r_opt r') None)] \<and>
         initDone (r_opt r')))"
proof (intro conjI impI)
  assume "\<not> initDone opt"
  then show "triggered (showItemsOnBoard opt this) = []" by (rule pass_before_init)
next
  assume r: "showItemsOnBoard opt this = Inr r"
  then show "triggered (showItemsOnBoard opt this) = r_events r" by simp
  from pass_events_exist [OF r]
  show "(\<exists>d. BoardItemAdd d \<in> set (r_events r)) \<longleftrightarrow> initDone opt \<and> r_newItems r \<noteq> []"
    and "(\<exists>d. BoardItemRemove d \<in> set (r_events r)) \<longleftrightarrow> initDone opt \<and> r_delItems r \<noteq> []"
    and "(\<exists>d. BoardChange d \<in> set (r_events r)) \<longleftrightarrow>
         initDone opt \<and> (r_newItems r \<noteq> [] \<or> r_delItems r \<noteq> [] \<or> r_chgItems r \<noteq> [])"
    by blast+
next
  assume n: "\<not> initDone opt"
  from firstLoad_events [OF n, of fetched r']
  show "\<forall>ev \<in> set (triggered (firstLoad opt fetched)). \<exists>d. ev = BoardCreate d" by blast
  assume "firstLoad opt fetched = Inr r'"
  with firstLoad_events [OF n, of fetched r']
  show "r_events r' = [BoardCreate (getEventObject (r_opt r') None)]"
    and "initDone (r_opt r')"
    by blast+
qed

theorem events_need_init_and_items_witness:
  "\<not> initDone unloaded3 \<and>
   triggered (showItemsOnBoard unloaded3 (thisOpt_defaults unloaded3)) = [] \<and>
   initDone (loaded3\<lparr>listItems := fresh3\<rparr>) \<and>
   \<not> isl (refreshBoard loaded3 fresh3) \<and>
   r_newItems (projr (refreshBoard loaded3 fresh3)) \<noteq> [] \<and>
   (\<exists>d. BoardItemAdd d \<in> set (r_events (projr (refreshBoard loaded3 fresh3))))"
proof -
  have a: "\<not> initDone unloaded3" by code_simp
  have b: "initDone (loaded3\<lparr>listItems := fresh3\<rparr>)" by code_simp
  have c: "r_newItems (projr (refreshBoard loaded3 fresh3)) \<noteq> []" by code_simp
  have d: "\<not> isl (refreshBoard loaded3 fresh3)" by code_simp
  show ?thesis
    using a b c d
      events_need_init_and_items [of unloaded3 "thisOpt_defaults unloaded3"]
      events_need_init_and_items [of "loaded3\<lparr>listItems := fresh3\<rparr>"
          "(thisOpt_defaults (loaded3\<lparr>listItems := fresh3\<rparr>))\<lparr>refresh := True\<rparr>"
          "projr (refreshBoard loaded3 fresh3)"]
      refresh_loaded3_returns
    by simp
qed

text \<open>
  C10: the add and the remove event carry, in \<open>itemsModified\<close>, one element, which is the
  array of the rows added or removed; the change event carries the rows themselves,
  the added ones, then the removed ones, then the moved ones.
\<close>

theorem itemsModified_nested_or_flat:
  "showItemsOnBoard opt this = Inr r \<Longrightarrow>
   (\<forall>d. BoardItemAdd d \<in> set (r_events r) \<longrightarrow>
        itemsModified d = [RecArray (map Some (r_newItems r))]) \<and>
   (\<forall>d. BoardItemRemove d \<in> set (r_events r) \<longrightarrow>
        itemsModified d = [RecArray (r_delItems r)]) \<and>
   (\<forall>d. BoardChange d \<in> set (r_events r) \<longrightarrow>
        itemsModified d = map Rec (map Some (r_newItems r) @ r_delItems r @
                                   map Some (r_chgItems r)))"
proof -
  assume "showItemsOnBoard opt this = Inr r"
  then obtain sts1 where r: "r = finishPass opt this (loopRows opt this) sts1"
    by (rule showItemsOnBoard_returned)
  show ?thesis unfolding r by (rule finishPass_itemsModified)
qed

theorem itemsModified_nested_or_flat_witness:
  "(\<exists>d. BoardItemAdd d \<in> set (r_events (projr (refreshBoard loaded3 fresh3))) \<and>
        itemsModified d = [RecArray [Some (statusRow ''4'' ''In Progress'')]]) \<and>
   (\<exists>d. BoardItemRemove d \<in> set (r_events (projr (refreshBoard loaded3 fresh3))) \<and>
        itemsModified d = [RecArray [Some (statusRow ''1'' ''Bogus'')]]) \<and>
   (\<exists>d. BoardChange d \<in> set (r_events (projr (refreshBoard loaded3 fresh3))) \<and>
        itemsModified d = [Rec (Some (statusRow ''4'' ''In Progress'')),
                           Rec (Some (statusRow ''1'' ''Bogus'')),
                           Rec (Some (statusRow ''2'' ''Done''))])"
proof -
  let ?r = "projr (refreshBoard loaded3 fresh3)"
  note r = refresh_loaded3_returns
  have n: "r_newItems ?r = [statusRow ''4'' ''In Progress'']" by code_simp
  have d: "r_delItems ?r = [Some (statusRow ''1'' ''Bogus'')]" by code_simp
  have c: "r_chgItems ?r = [statusRow ''2'' ''Done'']" by code_simp
  have i: "initDone (loaded3\<lparr>listItems := fresh3\<rparr>)" by code_simp
  have ev: "(\<exists>d. BoardItemAdd d \<in> set (r_events ?r)) \<and> (\<exists>d. BoardItemRemove d \<in> set (r_events ?r)) \<and>
            (\<exists>d. BoardChange d \<in> set (r_events ?r))"
    using pass_events_exist [OF r] i n d c by simp
  show ?thesis
    using ev itemsModified_nested_or_flat [OF r] n d c
    by auto
qed

section \<open>Properties of a drag move\<close>

lemma dataEle_updBoardHeaders:
  "map dataEle (states (updBoardHeaders opt)) = map dataEle (states opt)"
  by (simp add: updBoardHeaders_def comp_def)

lemma onPreUpdate_updBoardHeaders: "onPreUpdate (updBoardHeaders opt) = onPreUpdate opt"
  by (simp add: updBoardHeaders_def)

lemma rc_opt_sortreceive: "rc_opt (sortreceive opt item) = updBoardHeaders opt"
  by (simp add: sortreceive_def Let_def split: option.splits prod.splits hook_ret.splits)

lemma itemObj_moveIntent:
  "itemObj (moveIntent opt item) = getBoardItemDataObject opt (dataAttr opt (ui_id item))"
  by (simp add: moveIntent_def getEventObject_def Let_def)

lemma getBoardItemDataObject_updBoardHeaders:
  "getBoardItemDataObject (updBoardHeaders opt) v = getBoardItemDataObject opt v"
  by (simp add: getBoardItemDataObject_def updBoardHeaders_def)

lemma dataAttr_updBoardHeaders: "dataAttr (updBoardHeaders opt) = dataAttr opt"
  by (simp add: updBoardHeaders_def)

lemma itemObj_sortreceive:
  "itemObj (rc_evData (sortreceive opt item)) =
   getBoardItemDataObject opt (dataAttr opt (ui_id item))"
proof -
  have "itemObj (rc_evData (sortreceive opt item)) = itemObj (moveIntent (updBoardHeaders opt) item)"
    by (cases "onPreUpdate (updBoardHeaders opt)")
       (auto simp: sortreceive_def Let_def split: prod.splits hook_ret.splits)
  then show ?thesis
    by (simp add: itemObj_moveIntent getBoardItemDataObject_updBoardHeaders
          dataAttr_updBoardHeaders)
qed

lemma call_sortreceive:
  assumes "rc_call (sortreceive opt item) = Some (l, i, ups)"
  shows "l = list opt \<and> i = map_option ID (itemObj (rc_evData (sortreceive opt item))) \<and>
         ups = updates (rc_evData (sortreceive opt item)) \<and> ups \<noteq> []"
proof -
  have l: "list (updBoardHeaders opt) = list opt" by (simp add: updBoardHeaders_def)
  show ?thesis
    using assms l
    by (cases "onPreUpdate (updBoardHeaders opt)")
       (auto simp: sortreceive_def Let_def moveIntent_def split: prod.splits hook_ret.splits if_splits)
qed

text \<open>
  C7: when the hook returns \<open>true\<close>, or leaves no update behind, the gesture calls nothing,
  triggers nothing and settles no promise, and every column holds the items it held
  after the drop.
\<close>

theorem cancelled_move_does_nothing:
  assumes "onPreUpdate opt = Some hook"
    and "hook (moveIntent (updBoardHeaders opt) item) = (ret, ups)"
    and "ret = ReturnsTrue \<or> ups = []"
  shows "snd (dragMove u opt item xd status) = [] \<and>
         map dataEle (states (fst (dragMove u opt item xd status))) = map dataEle (states opt)"
proof -
  have call: "rc_call (sortreceive opt item) = None"
    using assms
    by (cases ret) (auto simp: sortreceive_def Let_def onPreUpdate_updBoardHeaders)
  show ?thesis
    by (simp add: dragMove_def Let_def call rc_opt_sortreceive dataEle_updBoardHeaders)
qed

theorem cancelled_move_does_nothing_witness:
  "snd (dragMove replyReader (dropped3\<lparr>onPreUpdate := Some cancelHook\<rparr>) card2
          \<lparr>responseXML = ''<z:row ows_ID=2 />''\<rparr> ''success'') = [] \<and>
   snd (dragMove replyReader (dropped3\<lparr>onPreUpdate := Some emptyHook\<rparr>) card2
          \<lparr>responseXML = ''<z:row ows_ID=2 />''\<rparr> ''success'') = [] \<and>
   map (map data_id \<circ> dataEle) (states dropped3) = [[], [''2''], [''1'']]"
proof -
  have a: "onPreUpdate (dropped3\<lparr>onPreUpdate := Some cancelHook\<rparr>) = Some cancelHook" by simp
  have b: "onPreUpdate (dropped3\<lparr>onPreUpdate := Some emptyHook\<rparr>) = Some emptyHook" by simp
  have c: "map (map data_id \<circ> dataEle) (states dropped3) = [[], [''2''], [''1'']]" by code_simp
  show ?thesis
    using cancelled_move_does_nothing [OF a, of card2 ReturnsTrue
            "updates (moveIntent (updBoardHeaders (dropped3\<lparr>onPreUpdate := Some cancelHook\<rparr>)) card2)"]
          cancelled_move_does_nothing [OF b, of card2 ReturnsOther "[]"]
          c
    by (simp add: cancelHook_def emptyHook_def)
qed

text \<open>
  The three ends of a gesture that makes the call.  On success the change event is
  triggered and then the promise is resolved with the first row of the reply, the row
  object of the event object and the reply.  When the status is \<open>error\<close>, or the reply
  carries an error, the promise is rejected with the message, the reply and the status,
  and no event is triggered.  The row object is what \<open>getBoardItemDataObject\<close> finds for
  the value that \<open>.data("id")\<close> makes of the \<open>data-id\<close> of the card: the first row of
  \<open>listItems\<close> with the identifier of the card when that value is truthy and reads as the
  identifier; the object \<open>{}\<close>, and with it a call without an identifier, when the value
  is falsy.
\<close>

lemma committed_move_ends:
  assumes "rc_call (sortreceive opt item) = Some (l, i, ups)"
  shows "(status \<noteq> ''error'' \<and> \<not> doesMsgHaveError u xd \<longrightarrow>
            snd (dragMove u opt item xd status) =
              [UpdateListItems l i ups,
               Trigger (BoardChange (rc_evData (sortreceive opt item))),
               ResolveWith (case getNodesFromXml u xd of [] \<Rightarrow> None | r # _ \<Rightarrow> Some r)
                           (getBoardItemDataObject opt (dataAttr opt (ui_id item))) xd]) \<and>
         (status = ''error'' \<longrightarrow>
            snd (dragMove u opt item xd status) =
              [UpdateListItems l i ups, RejectWith ''Communications Error!'' xd status]) \<and>
         (status \<noteq> ''error'' \<and> doesMsgHaveError u xd \<longrightarrow>
            snd (dragMove u opt item xd status) =
              [UpdateListItems l i ups, RejectWith (getMsgError u xd) xd status]) \<and>
         l = list opt \<and>
         i = map_option ID (getBoardItemDataObject opt (dataAttr opt (ui_id item))) \<and>
         (jsval_truthy (dataAttr opt (ui_id item)) \<and>
          jsval_String (dataAttr opt (ui_id item)) = ui_id item \<longrightarrow>
            getBoardItemDataObject opt (dataAttr opt (ui_id item)) =
              find (\<lambda>r. ID r = ui_id item) (listItems opt)) \<and>
         (\<not> jsval_truthy (dataAttr opt (ui_id item)) \<longrightarrow>
            getBoardItemDataObject opt (dataAttr opt (ui_id item)) = None \<and> i = None)"
proof -
  note obj = itemObj_sortreceive [of opt item]
  from call_sortreceive [OF assms]
  have li: "l = list opt"
    "i = map_option ID (getBoardItemDataObject opt (dataAttr opt (ui_id item)))"
    by (simp_all add: obj)
  have ends: "snd (dragMove u opt item xd status) =
      UpdateListItems l i ups # completefunc u (rc_evData (sortreceive opt item)) xd status"
    using assms by (simp add: dragMove_def Let_def)
  show ?thesis
    unfolding ends using li
    by (simp add: completefunc_def Let_def obj getBoardItemDataObject_def)
qed

lemma committed_move_of_card2:
  "rc_call (sortreceive dropped3 card2) =
     Some (''Tasks'', Some ''2'', [(''Status'', JStr ''In Progress'')]) \<and>
   snd (dragMove replyReader dropped3 card2 \<lparr>responseXML = ''<z:row ows_ID=2 />''\<rparr> ''success'') =
     [UpdateListItems ''Tasks'' (Some ''2'') [(''Status'', JStr ''In Progress'')],
      Trigger (BoardChange (rc_evData (sortreceive dropped3 card2))),
      ResolveWith (Some (statusRow ''2'' ''In Progress'')) (Some (statusRow ''2'' ''Not Started''))
        \<lparr>responseXML = ''<z:row ows_ID=2 />''\<rparr>] \<and>
   snd (dragMove replyReader dropped3 card2 \<lparr>responseXML = []\<rparr> ''error'') =
     [UpdateListItems ''Tasks'' (Some ''2'') [(''Status'', JStr ''In Progress'')],
      RejectWith ''Communications Error!'' \<lparr>responseXML = []\<rparr> ''error''] \<and>
   snd (dragMove replyReader dropped3 card2
          \<lparr>responseXML = ''<ErrorCode>0x81020014</ErrorCode>''\<rparr> ''success'') =
     [UpdateListItems ''Tasks'' (Some ''2'') [(''Status'', JStr ''In Progress'')],
      RejectWith ''Invalid value'' \<lparr>responseXML = ''<ErrorCode>0x81020014</ErrorCode>''\<rparr> ''success'']"
proof -
  have call: "rc_call (sortreceive dropped3 card2) =
                Some (''Tasks'', Some ''2'', [(''Status'', JStr ''In Progress'')])"
    by code_simp
  have obj: "getBoardItemDataObject dropped3 (dataAttr dropped3 (ui_id card2)) =
               Some (statusRow ''2'' ''Not Started'')"
    by code_simp
  show ?thesis
    using call obj
      committed_move_ends [OF call, of "''success''" replyReader
         "\<lparr>responseXML = ''<z:row ows_ID=2 />''\<rparr>"]
      committed_move_ends [OF call, of "''error''" replyReader "\<lparr>responseXML = []\<rparr>"]
      committed_move_ends [OF call, of "''success''" replyReader
         "\<lparr>responseXML = ''<ErrorCode>0x81020014</ErrorCode>''\<rparr>"]
    by (simp add: replyReader_def)
qed



section \<open>The items a refresh keeps and removes\<close>

subsection \<open>The operations on the page\<close>

lemma length_onItems: "length (onItems i f sts) = length sts"
  by (simp add: onItems_def)

lemma length_appendTo: "length (appendTo i k sts) = length sts"
  by (simp add: appendTo_def)

lemma length_appendItems: "length (appendItems k its sts) = length sts"
  by (simp add: appendItems_def)




text \<open>A change made column by column, with the index of the column at hand.\<close>

lemma filter_boardItems_indexed:
  "(\<And>j s. s \<in> set sts \<Longrightarrow> filter P (dataEle (g j s)) = filter P (dataEle s)) \<Longrightarrow>
   filter P (boardItems (map (\<lambda>(j, s). g j s) (enumerate n sts))) = filter P (boardItems sts)"
  by (induction sts arbitrary: n) (simp_all add: boardItems_def)

lemma set_boardItems: "set (boardItems sts) = (\<Union>s \<in> set sts. set (dataEle s))"
  by (simp add: boardItems_def)



lemma unmarked_after_appendItems:
  assumes "\<forall>it \<in> set its. temp it"
  shows "filter (\<lambda>it. \<not> temp it) (boardItems (appendItems k its sts)) =
         filter (\<lambda>it. \<not> temp it) (boardItems sts)"
proof -
  have new: "filter (\<lambda>it. \<not> temp it) its = []"
    using assms by (auto simp: filter_empty_conv)
  have "appendItems k its sts =
        map (\<lambda>(j, s). (\<lambda>j s. if j = k then s\<lparr>dataEle := dataEle s @ its\<rparr> else s) j s) (enumerate 0 sts)"
    by (simp add: appendItems_def)
  then show ?thesis
    using filter_boardItems_indexed
       [of sts "\<lambda>it. \<not> temp it" "\<lambda>j s. if j = k then s\<lparr>dataEle := dataEle s @ its\<rparr> else s" 0]
    by (simp add: new)
qed

lemma set_boardItems_indexed:
  "set (boardItems (map (\<lambda>(j, s). g j s) (enumerate n sts))) =
   (\<Union>(j, s) \<in> set (enumerate n sts). set (dataEle (g j s)))"
  by (auto simp: set_boardItems)

lemma set_boardItems_appendItems:
  "set (boardItems (appendItems k its sts)) =
   set (boardItems sts) \<union> (if k < length sts then set its else {})"
proof (rule set_eqI, rule iffI)
  fix it assume "it \<in> set (boardItems (appendItems k its sts))"
  then show "it \<in> set (boardItems sts) \<union> (if k < length sts then set its else {})"
    unfolding appendItems_def set_boardItems_indexed
    by (auto simp: set_boardItems in_set_enumerate_eq split: if_splits) (use nth_mem in blast)+
next
  fix it assume a: "it \<in> set (boardItems sts) \<union> (if k < length sts then set its else {})"
  show "it \<in> set (boardItems (appendItems k its sts))"
  proof (cases "it \<in> set (boardItems sts)")
    case True
    then obtain s where s: "s \<in> set sts" "it \<in> set (dataEle s)"
      by (auto simp: set_boardItems)
    then obtain j where "j < length sts" "sts ! j = s" by (auto simp: in_set_conv_nth)
    then have "(j, s) \<in> set (enumerate 0 sts)" by (auto simp: in_set_enumerate_eq)
    then show ?thesis
      unfolding appendItems_def set_boardItems_indexed using s by force
  next
    case False
    with a have k: "k < length sts" "it \<in> set its" by (auto split: if_splits)
    then have "(k, sts ! k) \<in> set (enumerate 0 sts)" by (simp add: in_set_enumerate_eq)
    then show ?thesis
      unfolding appendItems_def set_boardItems_indexed using k by force
  qed
qed





lemma length_appendToSlot: "length (appendToSlot i t sts) = length sts"
  by (cases t) (simp_all add: length_appendTo)






subsection \<open>One row of the loop\<close>

lemma board_createNewItem_None:
  "board (createNewItem opt this st x None p) = board p"
  by (simp add: createNewItem_def Let_def)

lemma board_createNewItem_Some:
  "board (createNewItem opt this st x (Some i) p) =
     (if template opt x \<noteq> [] then onItems i (\<lambda>it. it\<lparr>html := template opt x\<rparr>) (board p)
      else board p)"
  by (simp add: createNewItem_def Let_def)

lemma length_board_placeRow: "length (board (placeRow opt this p x)) = length (board p)"
  by (simp add: placeRow_def Let_def board_createNewItem_None board_createNewItem_Some
        length_onItems length_appendToSlot split: option.splits)

lemma length_board_fold:
  "length (board (foldl (placeRow opt this) p xs)) = length (board p)"
  by (induction xs arbitrary: p) (simp_all add: length_board_placeRow)




lemma passedBy_Cons:
  "passedBy opt (x # xs) i \<longleftrightarrow> (ID x = i \<and> passesGuard opt x) \<or> passedBy opt xs i"
  by (simp add: passedBy_def)








subsection \<open>The loop\<close>



text \<open>The items waiting in \<open>itemsForBoard\<close>, and the keys they wait under.\<close>

lemma set_addItem:
  "set (concat (map snd (addItem k it ifb))) = insert it (set (concat (map snd ifb)))"
proof (induction ifb)
  case Nil
  show ?case by simp
next
  case (Cons e ifb)
  obtain k' its where e: "e = (k', its)" by (cases e)
  show ?case
  proof (cases "k' = k")
    case True
    then show ?thesis by (auto simp: e)
  next
    case False
    have "set (concat (map snd (addItem k it (e # ifb)))) =
          set its \<union> set (concat (map snd (addItem k it ifb)))"
      using False by (simp add: e)
    also have "\<dots> = set its \<union> insert it (set (concat (map snd ifb)))"
      by (simp only: Cons.IH)
    also have "\<dots> = insert it (set (concat (map snd (e # ifb))))"
      by (auto simp: e)
    finally show ?thesis .
  qed
qed


lemma storeItem_cases:
  "storeItem k it ifb = ifb \<or> storeItem k it ifb = addItem k it ifb"
  by (simp add: storeItem_def)

lemma set_storeItem:
  "set (concat (map snd (storeItem k it ifb))) \<subseteq> insert it (set (concat (map snd ifb)))"
  using storeItem_cases [of k it ifb]
proof
  assume "storeItem k it ifb = ifb"
  then show ?thesis by (simp only: subset_insertI)
next
  assume "storeItem k it ifb = addItem k it ifb"
  then show ?thesis by (simp only: set_addItem subset_refl)
qed


lemma itemsForBoard_createNewItem:
  "itemsForBoard (createNewItem opt this st x u p) = itemsForBoard p \<or>
   itemsForBoard (createNewItem opt this st x u p) =
     storeItem st \<lparr>data_id = ID x, html = template opt x,
                   temp = (initDone opt \<and> refresh this)\<rparr> (itemsForBoard p)"
  by (simp add: createNewItem_def Let_def)

lemma pending_createNewItem:
  "set (concat (map snd (itemsForBoard (createNewItem opt this st x u p)))) \<subseteq>
   insert \<lparr>data_id = ID x, html = template opt x, temp = (initDone opt \<and> refresh this)\<rparr>
     (set (concat (map snd (itemsForBoard p))))"
  using itemsForBoard_createNewItem [of opt this st x u p]
proof
  assume "itemsForBoard (createNewItem opt this st x u p) = itemsForBoard p"
  then show ?thesis by (simp only: subset_insertI)
next
  assume "itemsForBoard (createNewItem opt this st x u p) =
        storeItem st \<lparr>data_id = ID x, html = template opt x,
                      temp = (initDone opt \<and> refresh this)\<rparr> (itemsForBoard p)"
  then show ?thesis by (simp only: set_storeItem)
qed


lemma itemsForBoard_placeRow:
  "itemsForBoard (placeRow opt this p x) = itemsForBoard p \<or>
   (passesGuard opt x \<and>
    (\<exists>u q. itemsForBoard (placeRow opt this p x) =
             itemsForBoard (createNewItem opt this (rowState opt x) x u q) \<and>
           itemsForBoard q = itemsForBoard p))"
proof (cases "statesMapAt opt (rowState opt x)")
  case None
  then show ?thesis by (simp add: placeRow_def Let_def)
next
  case (Some t)
  then have on: "passesGuard opt x" by (simp add: passesGuard_def)
  have "\<exists>u q. itemsForBoard (placeRow opt this p x) =
             itemsForBoard (createNewItem opt this (rowState opt x) x u q) \<and>
           itemsForBoard q = itemsForBoard p"
  proof (cases "refresh this = False \<or> findItems (board p) (ID x) = []")
    case True
    let ?q = "if initDone opt then p\<lparr>newItems := newItems p @ [x]\<rparr> else p"
    have "itemsForBoard (placeRow opt this p x) =
          itemsForBoard (createNewItem opt this (rowState opt x) x None ?q)"
      using True Some by (auto simp: placeRow_def Let_def)
    moreover have "itemsForBoard ?q = itemsForBoard p" by simp
    ultimately show ?thesis by blast
  next
    case False
    let ?p1 = "p\<lparr>board := onItems (ID x) (\<lambda>it. it\<lparr>temp := True\<rparr>) (board p)\<rparr>"
    let ?q = "if closestBoardstate opt (board ?p1) (ID x) \<noteq> JStr (rowState opt x)
              then ?p1\<lparr>board := appendToSlot (ID x) t (board ?p1), chgItems := chgItems ?p1 @ [x]\<rparr>
              else ?p1"
    have "itemsForBoard (placeRow opt this p x) =
          itemsForBoard (createNewItem opt this (rowState opt x) x (Some (ID x)) ?q)"
      using False Some by (simp add: placeRow_def Let_def)
    moreover have "itemsForBoard ?q = itemsForBoard p" by simp
    ultimately show ?thesis by blast
  qed
  with on show ?thesis by blast
qed

lemma pending_placeRow:
  assumes "it \<in> set (concat (map snd (itemsForBoard (placeRow opt this p x))))"
  shows "it \<in> set (concat (map snd (itemsForBoard p))) \<or>
         (data_id it = ID x \<and> passesGuard opt x \<and> temp it = (initDone opt \<and> refresh this))"
proof -
  from itemsForBoard_placeRow [of opt this p x]
  show ?thesis
  proof
    assume "itemsForBoard (placeRow opt this p x) = itemsForBoard p"
    with assms show ?thesis by simp
  next
    assume "passesGuard opt x \<and>
      (\<exists>u q. itemsForBoard (placeRow opt this p x) =
               itemsForBoard (createNewItem opt this (rowState opt x) x u q) \<and>
             itemsForBoard q = itemsForBoard p)"
    then obtain u q where on: "passesGuard opt x"
      and eq: "itemsForBoard (placeRow opt this p x) =
               itemsForBoard (createNewItem opt this (rowState opt x) x u q)"
      and q: "itemsForBoard q = itemsForBoard p"
      by blast
    from assms eq pending_createNewItem [of opt this "rowState opt x" x u q] q
    have "it = \<lparr>data_id = ID x, html = template opt x, temp = (initDone opt \<and> refresh this)\<rparr> \<or>
          it \<in> set (concat (map snd (itemsForBoard p)))"
      by auto
    with on show ?thesis by auto
  qed
qed

lemma pending_fold:
  "it \<in> set (concat (map snd (itemsForBoard (foldl (placeRow opt this) p xs)))) \<Longrightarrow>
   it \<in> set (concat (map snd (itemsForBoard p))) \<or>
   (passedBy opt xs (data_id it) \<and> temp it = (initDone opt \<and> refresh this))"
proof (induction xs arbitrary: p)
  case Nil
  then show ?case by simp
next
  case (Cons x xs)
  from Cons.IH [of "placeRow opt this p x"] Cons.prems
  have "it \<in> set (concat (map snd (itemsForBoard (placeRow opt this p x)))) \<or>
        (passedBy opt xs (data_id it) \<and> temp it = (initDone opt \<and> refresh this))"
    by simp
  then show ?case
  proof
    assume "it \<in> set (concat (map snd (itemsForBoard (placeRow opt this p x))))"
    from pending_placeRow [OF this] show ?thesis by (auto simp: passedBy_Cons)
  next
    assume "passedBy opt xs (data_id it) \<and> temp it = (initDone opt \<and> refresh this)"
    then show ?thesis by (simp add: passedBy_Cons)
  qed
qed







subsection \<open>Insertion and sweep\<close>

lemma insertIntoBoard_Cons:
  assumes "insertIntoBoard opt ((x, its) # rest) sts = Inr sts'"
  shows "(its = [] \<and> insertIntoBoard opt rest sts = Inr sts') \<or>
         (\<exists>k. its \<noteq> [] \<and> statesMapAt opt x = Some (Column k) \<and>
              insertIntoBoard opt rest (appendItems k its sts) = Inr sts')"
  using assms by (auto split: if_splits option.splits slot.splits)

lemma unmarked_insertIntoBoard:
  "\<forall>it \<in> set (concat (map snd ifb)). temp it \<Longrightarrow>
   insertIntoBoard opt ifb sts = Inr sts' \<Longrightarrow>
   filter (\<lambda>it. \<not> temp it) (boardItems sts') = filter (\<lambda>it. \<not> temp it) (boardItems sts)"
proof (induction ifb arbitrary: sts)
  case Nil
  then show ?case by simp
next
  case (Cons e ifb)
  obtain x its where e: "e = (x, its)" by (cases e)
  have its: "\<forall>it \<in> set its. temp it" using Cons.prems(1) e by auto
  have rest: "\<forall>it \<in> set (concat (map snd ifb)). temp it" using Cons.prems(1) by auto
  from insertIntoBoard_Cons [OF Cons.prems(2) [unfolded e]]
  show ?case
  proof (elim disjE conjE exE)
    assume "insertIntoBoard opt ifb sts = Inr sts'"
    from Cons.IH [OF rest this] show ?thesis .
  next
    fix k assume "insertIntoBoard opt ifb (appendItems k its sts) = Inr sts'"
    from Cons.IH [OF rest this] unmarked_after_appendItems [OF its, of k sts]
    show ?thesis by simp
  qed
qed

lemma set_insertIntoBoard_lower:
  "insertIntoBoard opt ifb sts = Inr sts' \<Longrightarrow> set (boardItems sts) \<subseteq> set (boardItems sts')"
proof (induction ifb arbitrary: sts)
  case Nil
  then show ?case by simp
next
  case (Cons e ifb)
  obtain x its where e: "e = (x, its)" by (cases e)
  have step: "set (boardItems sts) \<subseteq> set (boardItems (appendItems k its sts))" for k
    by (simp add: set_boardItems_appendItems)
  from insertIntoBoard_Cons [OF Cons.prems [unfolded e]]
  show ?case
  proof (elim disjE conjE exE)
    assume "insertIntoBoard opt ifb sts = Inr sts'"
    from Cons.IH [OF this] show ?thesis .
  next
    fix k assume "insertIntoBoard opt ifb (appendItems k its sts) = Inr sts'"
    from Cons.IH [OF this] step [of k] show ?thesis by blast
  qed
qed

lemma set_insertIntoBoard_upper:
  "insertIntoBoard opt ifb sts = Inr sts' \<Longrightarrow>
   set (boardItems sts') \<subseteq> set (boardItems sts) \<union> set (concat (map snd ifb))"
proof (induction ifb arbitrary: sts)
  case Nil
  then show ?case by simp
next
  case (Cons e ifb)
  obtain x its where e: "e = (x, its)" by (cases e)
  have step: "set (boardItems (appendItems k its sts)) \<subseteq> set (boardItems sts) \<union> set its" for k
    by (simp add: set_boardItems_appendItems)
  from insertIntoBoard_Cons [OF Cons.prems [unfolded e]]
  show ?case
  proof (elim disjE conjE exE)
    assume "insertIntoBoard opt ifb sts = Inr sts'"
    from Cons.IH [OF this] show ?thesis by (auto simp: e)
  next
    fix k assume "insertIntoBoard opt ifb (appendItems k its sts) = Inr sts'"
    from Cons.IH [OF this] step [of k] show ?thesis by (auto simp: e)
  qed
qed

lemma length_insertIntoBoard:
  "insertIntoBoard opt ifb sts = Inr sts' \<Longrightarrow> length sts' = length sts"
proof (induction ifb arbitrary: sts)
  case Nil
  then show ?case by simp
next
  case (Cons e ifb)
  obtain x its where e: "e = (x, its)" by (cases e)
  from insertIntoBoard_Cons [OF Cons.prems [unfolded e]]
  show ?case
  proof (elim disjE conjE exE)
    assume "insertIntoBoard opt ifb sts = Inr sts'"
    from Cons.IH [OF this] show ?thesis .
  next
    fix k assume "insertIntoBoard opt ifb (appendItems k its sts) = Inr sts'"
    from Cons.IH [OF this] show ?thesis by (simp add: length_appendItems)
  qed
qed


lemma insertItems_Inr:
  "insertItems opt ifb sts = Inr sts' \<Longrightarrow> insertIntoBoard opt ifb sts = Inr sts'"
  by (simp add: insertItems_def split: if_splits)


lemma boardItems_sweep:
  "boardItems (sweep sts) = map (\<lambda>it. it\<lparr>temp := False\<rparr>) (filter temp (boardItems sts))"
  by (induction sts) (simp_all add: sweep_def boardItems_def)

lemma boardItems_updBoardHeaders:
  "boardItems (states (updBoardHeaders opt)) = boardItems (states opt)"
  by (simp add: updBoardHeaders_def boardItems_def comp_def)

subsection \<open>A refresh of a board that is in use\<close>


lemma finishPass_refresh:
  assumes "initDone opt" and "refresh this"
  shows "r_delItems (finishPass opt this p sts1) = sweptItems opt sts1"
    and "boardItems (states (r_opt (finishPass opt this p sts1))) = boardItems (sweep sts1)"
  using assms by (simp_all add: finishPass_def Let_def boardItems_updBoardHeaders)


lemma inserted_parts:
  assumes "(if doBoardInsert this then insertItems opt ifb sts else Inr sts) = Inr sts1"
  shows "set (boardItems sts) \<subseteq> set (boardItems sts1)"
    and "set (boardItems sts1) \<subseteq> set (boardItems sts) \<union> set (concat (map snd ifb))"
    and "\<forall>it \<in> set (concat (map snd ifb)). temp it \<Longrightarrow>
         filter (\<lambda>it. \<not> temp it) (boardItems sts1) = filter (\<lambda>it. \<not> temp it) (boardItems sts)"
    and "length sts1 = length sts"
proof -
  have "sts1 = sts \<or> insertIntoBoard opt ifb sts = Inr sts1"
    using assms insertItems_Inr [of opt ifb sts sts1] by (auto split: if_splits)
  then show "set (boardItems sts) \<subseteq> set (boardItems sts1)"
    and "set (boardItems sts1) \<subseteq> set (boardItems sts) \<union> set (concat (map snd ifb))"
    and "\<forall>it \<in> set (concat (map snd ifb)). temp it \<Longrightarrow>
         filter (\<lambda>it. \<not> temp it) (boardItems sts1) = filter (\<lambda>it. \<not> temp it) (boardItems sts)"
    and "length sts1 = length sts"
    using set_insertIntoBoard_lower [of opt ifb sts sts1]
      set_insertIntoBoard_upper [of opt ifb sts sts1]
      unmarked_insertIntoBoard [of ifb opt sts sts1]
      length_insertIntoBoard [of opt ifb sts sts1]
    by blast+
qed








text \<open>
  What the amended C1 leaves aside: rows whose value is the name of an inherited
  property, for which the read of \<open>statesMap\<close> finds a value that is no column.  A card
  whose fresh row has the value \<open>constructor\<close> stays where it is and is reported as
  moved; a fresh row without a card and with the value \<open>toString\<close> makes the insertion
  throw; one with the value \<open>__proto__\<close> is reported as added and is not rendered.
\<close>

lemma inherited_value_keeps_card:
  "\<not> onBoardColumn (loaded3\<lparr>listItems := inherited3\<rparr>) (statusRow ''1'' ''constructor'') \<and>
   \<not> isl (refreshBoard loaded3 inherited3) \<and>
   map (\<lambda>s. (name s, map data_id (dataEle s))) (states loaded3) =
     [(''Not Started'', [''2'']), (''In Progress'', []), (''Done'', [''1''])] \<and>
   map (\<lambda>s. (name s, map data_id (dataEle s))) (states (r_opt (projr (refreshBoard loaded3 inherited3)))) =
     [(''Not Started'', [''2'']), (''In Progress'', []), (''Done'', [''1''])] \<and>
   r_delItems (projr (refreshBoard loaded3 inherited3)) = [] \<and>
   r_chgItems (projr (refreshBoard loaded3 inherited3)) = [statusRow ''1'' ''constructor''] \<and>
   length (r_events (projr (refreshBoard loaded3 inherited3))) = 1"
  by code_simp

lemma inherited_value_throws:
  "refreshBoard loaded3 inherited4 = Inl TypeError"
proof -
  have "isl (refreshBoard loaded3 inherited4)" by code_simp
  then obtain e where "refreshBoard loaded3 inherited4 = Inl e"
    by (cases "refreshBoard loaded3 inherited4") auto
  then show ?thesis by (cases e) simp
qed

lemma proto_value_is_reported_and_not_rendered:
  "\<not> isl (refreshBoard loaded3 proto4) \<and>
   r_newItems (projr (refreshBoard loaded3 proto4)) = [statusRow ''4'' ''__proto__''] \<and>
   map (\<lambda>s. (name s, map data_id (dataEle s))) (states (r_opt (projr (refreshBoard loaded3 proto4)))) =
     [(''Not Started'', [''2'']), (''In Progress'', []), (''Done'', [''1''])] \<and>
   length (r_events (projr (refreshBoard loaded3 proto4))) = 2"
  by code_simp

text \<open>
  What \<open>.data("boardstate")\<close> leads to on a board whose columns are named by numbers: the
  value read is a number, never identical to the value of a row, so a refresh with the
  very row the board shows reports the card as moved.
\<close>

lemma numbered_column_reports_move:
  "map (\<lambda>s. (name s, map data_id (dataEle s))) (states numbered) =
     [(''1'', [''7'']), (''2'', [])] \<and>
   \<not> isl (refreshBoard numbered [\<lparr>ID = ''7'', vals = [(''Priority'', ''1'')]\<rparr>]) \<and>
   r_chgItems (projr (refreshBoard numbered [\<lparr>ID = ''7'', vals = [(''Priority'', ''1'')]\<rparr>])) =
     [\<lparr>ID = ''7'', vals = [(''Priority'', ''1'')]\<rparr>] \<and>
   map (\<lambda>s. (name s, map data_id (dataEle s)))
       (states (r_opt (projr (refreshBoard numbered [\<lparr>ID = ''7'', vals = [(''Priority'', ''1'')]\<rparr>])))) =
     [(''1'', [''7'']), (''2'', [])]"
  by code_simp

subsection \<open>The boards the widget builds\<close>






lemma showItemsOnBoard_indices:
  assumes "showItemsOnBoard opt this = Inr r"
  shows "statesMap (r_opt r) = statesMap opt \<and>
         length (states (r_opt r)) = length (states opt) \<and>
         initDone (r_opt r) = initDone opt"
proof -
  from assms obtain s1 where r: "r = finishPass opt this (loopRows opt this) s1"
    and s1: "(if doBoardInsert this
              then insertItems opt (itemsForBoard (loopRows opt this)) (board (loopRows opt this))
              else Inr (board (loopRows opt this))) = Inr s1"
    by (rule showItemsOnBoard_returned)
  have "length (board (loopRows opt this)) = length (states opt)"
    by (simp add: loopRows_def Let_def length_board_fold)
  with inserted_parts(4) [OF s1] have "length s1 = length (states opt)" by simp
  then show ?thesis
    unfolding r by (simp add: finishPass_def Let_def updBoardHeaders_def sweep_def)
qed

lemma board_fold_full:
  "\<not> refresh this \<Longrightarrow> board (foldl (placeRow opt this) p xs) = board p"
proof (induction xs arbitrary: p)
  case Nil
  show ?case by simp
next
  case (Cons x xs)
  have "board (placeRow opt this p x) = board p"
    using Cons.prems
    by (simp add: placeRow_def Let_def board_createNewItem_None split: option.splits)
  with Cons show ?case by simp
qed

lemma no_temp_after_pass:
  assumes "initDone opt \<or> \<not> refresh this" and "showItemsOnBoard opt this = Inr r"
  shows "\<forall>it \<in> set (boardItems (states (r_opt r))). \<not> temp it"
proof -
  from assms(2) obtain s1 where r: "r = finishPass opt this (loopRows opt this) s1"
    and s1: "(if doBoardInsert this
              then insertItems opt (itemsForBoard (loopRows opt this)) (board (loopRows opt this))
              else Inr (board (loopRows opt this))) = Inr s1"
    by (rule showItemsOnBoard_returned)
  show ?thesis
  proof (cases "refresh this")
    case True
    with assms(1) have init: "initDone opt" by simp
    show ?thesis
      unfolding r finishPass_refresh(2) [OF init True] boardItems_sweep by simp
  next
    case False
    let ?cleared = "map (\<lambda>s. s\<lparr>headerTotalEle := 0, dataEle := []\<rparr>) (states opt)"
    let ?start = "\<lparr>board = ?cleared, newItems = [], chgItems = [], itemsForBoard = []\<rparr>"
    have lp: "loopRows opt this = foldl (placeRow opt this) ?start (rows this)"
      using False by (simp add: loopRows_def)
    have empty: "boardItems ?cleared = []"
      by (induction "states opt") (simp_all add: boardItems_def)
    have b: "boardItems (board (loopRows opt this)) = []"
      unfolding lp using board_fold_full [OF False, where opt = opt and p = ?start and xs = "rows this"]
      by (simp add: empty)
    have pend: "\<not> temp it" if "it \<in> set (concat (map snd (itemsForBoard (loopRows opt this))))" for it
      using pending_fold [OF that [unfolded lp]] False by simp
    have "boardItems (states (r_opt r)) = boardItems s1"
      unfolding r using False by (simp add: finishPass_def Let_def boardItems_updBoardHeaders)
    with inserted_parts(2) [OF s1] b
    have "set (boardItems (states (r_opt r))) \<subseteq>
          set (concat (map snd (itemsForBoard (loopRows opt this))))"
      by simp
    with pend show ?thesis by blast
  qed
qed


lemma board_stays_in_use:
  assumes "initDone opt" and "\<forall>k \<in> ran (statesMap opt). k < length (states opt)"
    and "refreshBoard opt fetched = Inr r"
  shows "initDone (r_opt r) \<and>
         (\<forall>k \<in> ran (statesMap (r_opt r)). k < length (states (r_opt r))) \<and>
         (\<forall>it \<in> set (boardItems (states (r_opt r))). \<not> temp it) \<and>
         statesMap (r_opt r) = statesMap opt"
proof -
  let ?opt1 = "opt\<lparr>listItems := fetched\<rparr>"
  let ?opts = "(thisOpt_defaults ?opt1)\<lparr>refresh := True\<rparr>"
  have init: "initDone ?opt1 \<or> \<not> refresh ?opts" using assms(1) by simp
  have r: "showItemsOnBoard ?opt1 ?opts = Inr r"
    using assms(3) by (simp add: refreshBoard_def Let_def)
  show ?thesis
    using no_temp_after_pass [OF init r] showItemsOnBoard_indices [OF r] assms(1,2)
    by simp
qed



end
